theory Spec2Isabelle
  imports Main
begin

unbundle bit_operations_syntax

section \<open>tree\_permission: the module's data and configuration values\<close>

text \<open>
  The module reads its arguments with \<^verbatim>\<open>json.load\<close>, so every configuration value is
  a dynamically typed JSON value. Python's \<^verbatim>\<open>None\<close> is \<open>JNull\<close>, \<^verbatim>\<open>bool\<close> is
  \<open>JBool\<close>, the unbounded \<^verbatim>\<open>int\<close> is \<open>JInt\<close>, \<^verbatim>\<open>str\<close> is \<open>JStr\<close> (a list of
  characters, each a code point below 256), lists are \<open>JList\<close> and objects, loaded
  as \<^verbatim>\<open>OrderedDict\<close>, are \<open>JObj\<close>, the list of their pairs in the order of the file.
  JSON numbers with a fraction or an exponent (Python floats) are not part of the model's
  input type.
\<close>

datatype json =
    JNull
  | JBool bool
  | JInt int
  | JStr string
  | JList "json list"
  | JObj "(string \<times> json) list"

text \<open>
  Every way the run can end without a result. The first group are the calls of
  \<^verbatim>\<open>fail_json\<close> (a failure payload, then \<^verbatim>\<open>sys.exit\<close>); \<open>Uncaught\<close> is an exception
  that nothing catches. \<open>Could_not_find\<close> is the \<^verbatim>\<open>except KeyError\<close> handler of
  \<^verbatim>\<open>PermissionRegex.__init__\<close>: under Python 2 it calls \<^verbatim>\<open>fail_json\<close> with the
  message of the lookup; under Python 3 \<^verbatim>\<open>KeyError\<close> has no attribute \<^verbatim>\<open>message\<close>, the
  handler raises on top of the \<^verbatim>\<open>KeyError\<close> and the process ends with both in its
  traceback. In either case the run ends at that line, and the value carries the name that
  was looked up. \<open>Outside_model\<close> marks an input the model does not cover (it is never a
  statement about the code).
\<close>

datatype exc =
    KeyError string
  | TypeError
  | OSError string
  | OverflowError
  | ReError

datatype failure =
    Not_a_valid_boolean json
  | Not_an_integer json
  | Could_not_find string
  | Must_be_a_directory string
  | Missing_root_path
  | Missing_regexp
  | Regexp_must_be_a_list
  | Uncaught exc
  | Outside_model

definition bind :: "'e + 'a \<Rightarrow> ('a \<Rightarrow> 'e + 'b) \<Rightarrow> 'e + 'b" where
  "bind m f = (case m of Inl e \<Rightarrow> Inl e | Inr x \<Rightarrow> f x)"

text \<open>
  A JSON object loaded through \<^verbatim>\<open>OrderedDict\<close>: of two pairs with the same key the
  later one is kept.
\<close>

definition dict_get :: "(string \<times> json) list \<Rightarrow> string \<Rightarrow> json option" where
  "dict_get kvs k = map_of (rev kvs) k"

text \<open>\<^verbatim>\<open>try_kwarg(kwargs, key, default_value)\<close> with \<^verbatim>\<open>required=False\<close>.\<close>

definition try_kwarg :: "(string \<times> json) list \<Rightarrow> string \<Rightarrow> json \<Rightarrow> json" where
  "try_kwarg kwargs key default_value =
     (case dict_get kwargs key of Some v \<Rightarrow> v | None \<Rightarrow> default_value)"

text \<open>\<^verbatim>\<open>try_kwarg(kwargs, key, required=True)\<close>: the \<^verbatim>\<open>KeyError\<close> is raised again.\<close>

definition try_kwarg_required :: "(string \<times> json) list \<Rightarrow> string \<Rightarrow> failure + json" where
  "try_kwarg_required kwargs key =
     (case dict_get kwargs key of Some v \<Rightarrow> Inr v | None \<Rightarrow> Inl (Uncaught (KeyError key)))"

subsection \<open>\<^verbatim>\<open>to_bool\<close>\<close>

text \<open>
  \<^verbatim>\<open>str.lower()\<close> on code points below 256: the letters \<^verbatim>\<open>A\<close> to \<^verbatim>\<open>Z\<close> and the
  accented capitals \<^verbatim>\<open>0xC0\<close> to \<^verbatim>\<open>0xDE\<close> (but the sign \<^verbatim>\<open>0xD7\<close>) move up by 32.
\<close>

definition lower_char :: "char \<Rightarrow> char" where
  "lower_char c =
     (if ((65::nat) \<le> of_char c \<and> of_char c \<le> (90::nat)) \<or>
         ((192::nat) \<le> of_char c \<and> of_char c \<le> (222::nat) \<and> of_char c \<noteq> (215::nat))
      then char_of (of_char c + (32::nat)) else c)"

definition lower :: "string \<Rightarrow> string" where
  "lower s = map lower_char s"

text \<open>
  \<^verbatim>\<open>to_bool\<close> returns \<^verbatim>\<open>None\<close> for \<^verbatim>\<open>None\<close>, so its result is a \<open>bool option\<close>.
  The membership tests compare with \<^verbatim>\<open>==\<close>: the integer 1 equals \<^verbatim>\<open>True\<close> and 0 equals
  \<^verbatim>\<open>False\<close>; a list or an object equals no member.
\<close>

definition to_bool :: "json \<Rightarrow> failure + bool option" where
  "to_bool arg =
     (case arg of
        JNull \<Rightarrow> Inr None
      | JBool b \<Rightarrow> Inr (Some b)
      | JStr s \<Rightarrow>
          (if lower s \<in> set [''y'', ''yes'', ''on'', ''1'', ''true''] then Inr (Some True)
           else if lower s \<in> set [''n'', ''no'', ''off'', ''0'', ''false''] then Inr (Some False)
           else Inl (Not_a_valid_boolean (JStr (lower s))))
      | JInt n \<Rightarrow>
          (if n = 1 then Inr (Some True)
           else if n = 0 then Inr (Some False)
           else Inl (Not_a_valid_boolean arg))
      | _ \<Rightarrow> Inl (Not_a_valid_boolean arg))"

text \<open>Python's truth value of what \<^verbatim>\<open>to_bool\<close> returned: \<^verbatim>\<open>None\<close> is false.\<close>

definition truthy :: "bool option \<Rightarrow> bool" where
  "truthy b = (b = Some True)"

subsection \<open>\<^verbatim>\<open>to_mode\<close> and \<^verbatim>\<open>int(value, 8)\<close>\<close>

text \<open>
  \<^verbatim>\<open>int(s, 8)\<close> on a string, as CPython 3.6 and later read it: white space around the
  numeral, one sign, an optional \<^verbatim>\<open>0o\<close> prefix, then octal digits; single underscores may
  separate digits (and follow the prefix). Anything else raises \<^verbatim>\<open>ValueError\<close>, here
  \<open>None\<close>. White space is what C's \<^verbatim>\<open>isspace\<close> accepts, the codes 9 to 13 and 32; in
  a string that is not ASCII, CPython first turns the Unicode spaces, below 256 the codes
  \<^verbatim>\<open>0x85\<close> and \<^verbatim>\<open>0xA0\<close>, into blanks.
\<close>

definition is_space :: "char \<Rightarrow> bool" where
  "is_space c = (((9::nat) \<le> of_char c \<and> of_char c \<le> (13::nat)) \<or>
                 of_char c = (32::nat) \<or> of_char c = (133::nat) \<or> of_char c = (160::nat))"

definition is_oct :: "char \<Rightarrow> bool" where
  "is_oct c = ((48::nat) \<le> of_char c \<and> of_char c \<le> (55::nat))"

definition oct_val :: "char \<Rightarrow> int" where
  "oct_val c = of_char c - 48"

fun oct_body :: "int \<Rightarrow> string \<Rightarrow> (int \<times> string) option" where
  "oct_body acc [] = Some (acc, [])"
| "oct_body acc (c # cs) =
     (if is_oct c then oct_body (acc * 8 + oct_val c) cs
      else if c = CHR ''_'' then
        (case cs of
           [] \<Rightarrow> None
         | d # ds \<Rightarrow> if is_oct d then oct_body (acc * 8 + oct_val d) ds else None)
      else Some (acc, c # cs))"

definition oct_numeral :: "string \<Rightarrow> (int \<times> string) option" where
  "oct_numeral s =
     (case s of
        [] \<Rightarrow> None
      | d # ds \<Rightarrow> if is_oct d then oct_body (oct_val d) ds else None)"

definition strip_prefix8 :: "string \<Rightarrow> string" where
  "strip_prefix8 s =
     (case s of
        z # x # r \<Rightarrow>
          (if z = CHR ''0'' \<and> (x = CHR ''o'' \<or> x = CHR ''O'')
           then (case r of u # r' \<Rightarrow> if u = CHR ''_'' then r' else r | [] \<Rightarrow> r)
           else s)
      | _ \<Rightarrow> s)"

definition int8 :: "string \<Rightarrow> int option" where
  "int8 s =
     (let s1 = dropWhile is_space s;
          neg = (case s1 of c # _ \<Rightarrow> c = CHR ''-'' | [] \<Rightarrow> False);
          s2 = (case s1 of c # r \<Rightarrow> if c = CHR ''+'' \<or> c = CHR ''-'' then r else s1 | [] \<Rightarrow> s1)
      in case oct_numeral (strip_prefix8 s2) of
           None \<Rightarrow> None
         | Some (n, rest) \<Rightarrow>
             if dropWhile is_space rest = [] then Some (if neg then - n else n) else None)"

text \<open>
  \<^verbatim>\<open>to_mode\<close>: \<^verbatim>\<open>None\<close> stays \<^verbatim>\<open>None\<close>; an \<^verbatim>\<open>int\<close> is returned as it is (a
  \<^verbatim>\<open>bool\<close> is an \<^verbatim>\<open>int\<close> in Python, with \<^verbatim>\<open>True == 1\<close>); anything else goes
  through \<^verbatim>\<open>int(value, 8)\<close>, which raises \<^verbatim>\<open>ValueError\<close> on a bad string and
  \<^verbatim>\<open>TypeError\<close> on a list or an object, both caught and turned into \<^verbatim>\<open>fail_json\<close>.
\<close>

definition to_mode :: "json \<Rightarrow> failure + int option" where
  "to_mode v =
     (case v of
        JNull \<Rightarrow> Inr None
      | JInt n \<Rightarrow> Inr (Some n)
      | JBool b \<Rightarrow> Inr (Some (if b then 1 else 0))
      | JStr s \<Rightarrow> (case int8 s of Some n \<Rightarrow> Inr (Some n) | None \<Rightarrow> Inl (Not_an_integer v))
      | _ \<Rightarrow> Inl (Not_an_integer v))"


section \<open>Regular expressions: the fragment of Python's \<^verbatim>\<open>re\<close> that is modelled\<close>

text \<open>
  \<^verbatim>\<open>re.compile\<close> and \<^verbatim>\<open>regex.match\<close> belong to Python's library. The model covers
  patterns made of literal characters, \<^verbatim>\<open>.\<close>, the anchors \<^verbatim>\<open>^\<close> and \<^verbatim>\<open>$\<close>, the
  repeats \<^verbatim>\<open>*\<close>, \<^verbatim>\<open>+\<close>, \<^verbatim>\<open>?\<close> on a single character, alternation \<^verbatim>\<open>|\<close> and a
  backslash before a character that is neither a letter nor a digit. Groups, character
  classes, counted repeats, lazy repeats and backslash classes are \<open>Unsupported\<close>: the
  model says nothing about them. A pattern Python rejects (\<^verbatim>\<open>re.error\<close>) is
  \<open>Bad_pattern\<close>.

  A pattern is a list of alternatives, each a list of items. No flags are in force, so
  \<^verbatim>\<open>.\<close> matches any character but a newline, \<^verbatim>\<open>^\<close> matches at the start of the
  string only, and \<^verbatim>\<open>$\<close> matches at the end of the string and just before a newline
  that is the string's last character.
\<close>

datatype atom = Lit char | Any

datatype item = One atom | Star atom | Plus atom | Opt atom | Bol | Eol

type_synonym regex = "item list list"

datatype 'a parsed = Parsed 'a | Bad_pattern | Unsupported

definition backslash :: char where
  "backslash = CHR 0x5C"

definition newline :: char where
  "newline = CHR 0x0A"

definition is_alnum :: "char \<Rightarrow> bool" where
  "is_alnum c =
     (((48::nat) \<le> of_char c \<and> of_char c \<le> (57::nat)) \<or>
      ((65::nat) \<le> of_char c \<and> of_char c \<le> (90::nat)) \<or>
      ((97::nat) \<le> of_char c \<and> of_char c \<le> (122::nat)))"

definition atom_item :: "char \<Rightarrow> item" where
  "atom_item c =
     (if c = CHR ''.'' then One Any
      else if c = CHR ''^'' then Bol
      else if c = CHR ''$'' then Eol
      else One (Lit c))"

definition repeat :: "char \<Rightarrow> atom \<Rightarrow> item" where
  "repeat q a = (if q = CHR ''*'' then Star a else if q = CHR ''+'' then Plus a else Opt a)"

text \<open>
  A repeat character applies to the item before it: with nothing before it, or after an
  anchor, Python raises ``nothing to repeat''; after another repeat it is a lazy or
  possessive mark or an error, depending on the character and the Python version.
\<close>

definition quantify :: "char \<Rightarrow> item list \<Rightarrow> item list parsed" where
  "quantify q cur =
     (if cur = [] then Bad_pattern
      else case last cur of
             One a \<Rightarrow> Parsed (butlast cur @ [repeat q a])
           | Bol \<Rightarrow> Bad_pattern
           | Eol \<Rightarrow> Bad_pattern
           | _ \<Rightarrow> Unsupported)"

text \<open>How the parser treats a character of the pattern.\<close>

datatype kind = Escape | Alternation | Repetition | Beyond | Ordinary

definition kind :: "char \<Rightarrow> kind" where
  "kind c =
     (if c = backslash then Escape
      else if c = CHR ''|'' then Alternation
      else if c \<in> set ''*+?'' then Repetition
      else if c \<in> set ''()[{'' then Beyond
      else Ordinary)"

fun parse_rx :: "item list list \<Rightarrow> item list \<Rightarrow> string \<Rightarrow> regex parsed" where
  "parse_rx alts cur [] = Parsed (alts @ [cur])"
| "parse_rx alts cur (c # cs) =
     (case kind c of
        Escape \<Rightarrow>
          (case cs of
             [] \<Rightarrow> Bad_pattern
           | e # cs' \<Rightarrow>
               if is_alnum e then Unsupported else parse_rx alts (cur @ [One (Lit e)]) cs')
      | Alternation \<Rightarrow> parse_rx (alts @ [cur]) [] cs
      | Repetition \<Rightarrow>
          (case quantify c cur of
             Parsed cur' \<Rightarrow> parse_rx alts cur' cs
           | Bad_pattern \<Rightarrow> Bad_pattern
           | Unsupported \<Rightarrow> Unsupported)
      | Beyond \<Rightarrow> Unsupported
      | Ordinary \<Rightarrow> parse_rx alts (cur @ [atom_item c]) cs)"

definition re_compile :: "string \<Rightarrow> regex parsed" where
  "re_compile s = parse_rx [] [] s"

definition atom_ok :: "atom \<Rightarrow> char \<Rightarrow> bool" where
  "atom_ok a c = (case a of Lit l \<Rightarrow> c = l | Any \<Rightarrow> c \<noteq> newline)"

text \<open>
  \<open>ends items at_start s\<close> lists what is left of \<open>s\<close> after each way of matching the
  items from the front of \<open>s\<close>; \<open>at_start\<close> says whether the front of \<open>s\<close> is the start of
  the whole candidate.
\<close>

fun ends :: "item list \<Rightarrow> bool \<Rightarrow> string \<Rightarrow> string list" where
  "ends [] b s = [s]"
| "ends (One a # is) b [] = []"
| "ends (One a # is) b (c # s) = (if atom_ok a c then ends is False s else [])"
| "ends (Star a # is) b [] = ends is b []"
| "ends (Star a # is) b (c # s) =
     (if atom_ok a c then ends (Star a # is) False s else []) @ ends is b (c # s)"
| "ends (Plus a # is) b [] = []"
| "ends (Plus a # is) b (c # s) = (if atom_ok a c then ends (Star a # is) False s else [])"
| "ends (Opt a # is) b [] = ends is b []"
| "ends (Opt a # is) b (c # s) = (if atom_ok a c then ends is False s else []) @ ends is b (c # s)"
| "ends (Bol # is) b s = (if b then ends is b s else [])"
| "ends (Eol # is) b s = (if s = [] \<or> s = [newline] then ends is b s else [])"

text \<open>\<^verbatim>\<open>regex.match(s) is not None\<close>: some alternative matches a prefix of \<open>s\<close>.\<close>

definition re_match :: "regex \<Rightarrow> string \<Rightarrow> bool" where
  "re_match rx s = list_ex (\<lambda>alt. ends alt True s \<noteq> []) rx"


section \<open>Paths: \<^verbatim>\<open>posixpath\<close>\<close>

definition isabs :: "string \<Rightarrow> bool" where
  "isabs p = (case p of [] \<Rightarrow> False | c # _ \<Rightarrow> c = CHR ''/'')"

definition path_join :: "string \<Rightarrow> string \<Rightarrow> string" where
  "path_join a b =
     (if isabs b then b
      else if a = [] \<or> last a = CHR ''/'' then a @ b
      else a @ ''/'' @ b)"

fun split_sep :: "string \<Rightarrow> string list" where
  "split_sep [] = [[]]"
| "split_sep (c # cs) =
     (if c = CHR ''/'' then [] # split_sep cs
      else case split_sep cs of [] \<Rightarrow> [[c]] | x # xs \<Rightarrow> (c # x) # xs)"

fun join_sep :: "string list \<Rightarrow> string" where
  "join_sep [] = []"
| "join_sep [x] = x"
| "join_sep (x # y # ys) = x @ ''/'' @ join_sep (y # ys)"

definition initial_slashes :: "string \<Rightarrow> nat" where
  "initial_slashes p =
     (if take 2 p = ''//'' \<and> take 3 p \<noteq> ''///'' then 2
      else if take 1 p = ''/'' then 1 else 0)"

definition norm_comp :: "nat \<Rightarrow> string \<Rightarrow> string list \<Rightarrow> string list" where
  "norm_comp slashes c new_comps =
     (if c = [] \<or> c = ''.'' then new_comps
      else if c \<noteq> ''..'' \<or> (slashes = 0 \<and> new_comps = []) \<or>
              (new_comps \<noteq> [] \<and> last new_comps = ''..'')
      then new_comps @ [c]
      else if new_comps \<noteq> [] then butlast new_comps
      else new_comps)"

text \<open>\<^verbatim>\<open>posixpath.normpath\<close>.\<close>

definition posix_normpath :: "string \<Rightarrow> string" where
  "posix_normpath p =
     (if p = [] then ''.''
      else let comps = fold (norm_comp (initial_slashes p)) (split_sep p) [];
               q = replicate (initial_slashes p) CHR ''/'' @ join_sep comps
           in if q = [] then ''.'' else q)"


section \<open>The host: file system, password and group databases\<close>

text \<open>
  What \<^verbatim>\<open>os.lstat\<close> returns: the mode word (file type and permission bits), the owner
  and the group of an inode.
\<close>

record inode =
  st_mode :: int
  st_uid :: nat
  st_gid :: nat

text \<open>
  The file system is an inode table, which a run changes, and the part of the host that
  it does not change. Path names are resolved to inode
  numbers in two ways: \<open>lstat_ino\<close> is the resolution of \<^verbatim>\<open>os.lstat\<close>, which does not
  follow a symbolic link in the last component, and \<open>stat_ino\<close> is the resolution of
  \<^verbatim>\<open>os.stat\<close>, \<^verbatim>\<open>os.chmod\<close> and \<^verbatim>\<open>os.chown\<close>, which follow it (their Python
  default). For a name that is not a symbolic link the two agree. \<open>os_walk\<close> is the
  sequence of triples \<^verbatim>\<open>(root, dirs, files)\<close> that \<^verbatim>\<open>os.walk\<close> yields for a top
  directory. \<^verbatim>\<open>chmod\<close> and \<^verbatim>\<open>chown\<close> change neither names nor file types, and the run
  is taken to be privileged, so that a mode it sets never hides a name from it.
\<close>

record host =
  getcwd :: string
  lstat_ino :: "string \<rightharpoonup> nat"
  stat_ino :: "string \<rightharpoonup> nat"
  os_walk :: "string \<Rightarrow> (string \<times> string list \<times> string list) list"
  getpwnam :: "string \<rightharpoonup> nat"
  getgrnam :: "string \<rightharpoonup> nat"

datatype syscall = Chmod string int | Chown string nat nat

text \<open>
  What a run changes: the inode table, the sequence of \<^verbatim>\<open>chmod\<close> and \<^verbatim>\<open>chown\<close> calls
  made so far, and the module's two globals \<^verbatim>\<open>debug\<close> and \<^verbatim>\<open>changed_list\<close>.
\<close>

record proc =
  inodes :: "nat \<rightharpoonup> inode"
  calls :: "syscall list"
  debug :: "bool option"
  changed_list :: "string list"

definition os_lstat :: "host \<Rightarrow> (nat \<rightharpoonup> inode) \<Rightarrow> string \<Rightarrow> inode option" where
  "os_lstat h tab p = (case lstat_ino h p of None \<Rightarrow> None | Some i \<Rightarrow> tab i)"

definition os_stat :: "host \<Rightarrow> (nat \<rightharpoonup> inode) \<Rightarrow> string \<Rightarrow> inode option" where
  "os_stat h tab p = (case stat_ino h p of None \<Rightarrow> None | Some i \<Rightarrow> tab i)"

text \<open>\<^verbatim>\<open>stat.S_ISDIR\<close> and \<^verbatim>\<open>stat.S_ISLNK\<close>: the file type field is \<^verbatim>\<open>0o170000\<close>.\<close>

definition S_ISDIR :: "int \<Rightarrow> bool" where
  "S_ISDIR m = (m AND 61440 = 16384)"

definition S_ISLNK :: "int \<Rightarrow> bool" where
  "S_ISLNK m = (m AND 61440 = 40960)"

text \<open>
  \<^verbatim>\<open>os.path.isdir\<close> and \<^verbatim>\<open>os.path.exists\<close> call \<^verbatim>\<open>os.stat\<close> and answer
  \<^verbatim>\<open>False\<close> when it fails.
\<close>

definition os_path_isdir :: "host \<Rightarrow> (nat \<rightharpoonup> inode) \<Rightarrow> string \<Rightarrow> bool" where
  "os_path_isdir h tab p =
     (case os_stat h tab p of None \<Rightarrow> False | Some nd \<Rightarrow> S_ISDIR (st_mode nd))"

definition os_path_exists :: "host \<Rightarrow> (nat \<rightharpoonup> inode) \<Rightarrow> string \<Rightarrow> bool" where
  "os_path_exists h tab p = (os_stat h tab p \<noteq> None)"

definition abspath :: "host \<Rightarrow> string \<Rightarrow> string" where
  "abspath h p = posix_normpath (if isabs p then p else path_join (getcwd h) p)"

text \<open>
  \<^verbatim>\<open>os.chmod(path, mode)\<close>: the mode has to fit a C \<^verbatim>\<open>int\<close>; the kernel keeps the file
  type and stores the low twelve bits of the mode.
\<close>

definition os_chmod :: "host \<Rightarrow> string \<Rightarrow> int \<Rightarrow> proc \<Rightarrow> failure + proc" where
  "os_chmod h p m st =
     (if m < - 2147483648 \<or> 2147483647 < m then Inl (Uncaught OverflowError)
      else case stat_ino h p of
             None \<Rightarrow> Inl (Uncaught (OSError p))
           | Some i \<Rightarrow>
               (case inodes st i of
                  None \<Rightarrow> Inl (Uncaught (OSError p))
                | Some nd \<Rightarrow>
                    Inr (st\<lparr>inodes := (inodes st)
                               (i \<mapsto> nd\<lparr>st_mode := (st_mode nd AND NOT 4095) OR (m AND 4095)\<rparr>),
                            calls := calls st @ [Chmod p m]\<rparr>)))"

text \<open>
  \<^verbatim>\<open>os.chown(path, uid, gid)\<close> sets owner and group. On what is not a directory
  Linux also clears the set-user-ID bit (\<^verbatim>\<open>0o4000\<close>) and, when the file is executable
  for its group (\<^verbatim>\<open>0o0010\<close>), the set-group-ID bit (\<^verbatim>\<open>0o2000\<close>), also for a
  privileged caller and also when owner and group stay what they were.
\<close>

definition chown_mode :: "int \<Rightarrow> int" where
  "chown_mode m =
     (if S_ISDIR m then m
      else if m AND 8 \<noteq> 0 then m AND NOT 3072
      else m AND NOT 2048)"

definition os_chown :: "host \<Rightarrow> string \<Rightarrow> nat \<Rightarrow> nat \<Rightarrow> proc \<Rightarrow> failure + proc" where
  "os_chown h p u g st =
     (case stat_ino h p of
        None \<Rightarrow> Inl (Uncaught (OSError p))
      | Some i \<Rightarrow>
          (case inodes st i of
             None \<Rightarrow> Inl (Uncaught (OSError p))
           | Some nd \<Rightarrow>
               Inr (st\<lparr>inodes := (inodes st)
                          (i \<mapsto> nd\<lparr>st_mode := chown_mode (st_mode nd), st_uid := u, st_gid := g\<rparr>),
                       calls := calls st @ [Chown p u g]\<rparr>)))"

section \<open>The module\<close>

definition add_to_changed_list :: "string \<Rightarrow> proc \<Rightarrow> proc" where
  "add_to_changed_list p st =
     (if truthy (debug st) then st\<lparr>changed_list := changed_list st @ [p]\<rparr> else st)"

definition normpath :: "host \<Rightarrow> (nat \<rightharpoonup> inode) \<Rightarrow> string \<Rightarrow> string" where
  "normpath h tab p =
     (let a = abspath h p in if os_path_isdir h tab a then a @ ''/'' else a)"

record path_data =
  path :: string
  mode :: int
  uid :: nat
  gid :: nat
  isdir :: bool
  isfile :: bool

text \<open>\<^verbatim>\<open>collect_path_data\<close>; \<^verbatim>\<open>os.lstat\<close> raises when the name does not resolve.\<close>

definition collect_path_data :: "host \<Rightarrow> (nat \<rightharpoonup> inode) \<Rightarrow> string \<Rightarrow> failure + path_data" where
  "collect_path_data h tab p =
     (case os_lstat h tab p of
        None \<Rightarrow> Inl (Uncaught (OSError p))
      | Some path_stat \<Rightarrow>
          (let is_dir = os_path_isdir h tab p
           in Inr \<lparr>path = p,
                   mode = st_mode path_stat AND 4095,
                   uid = st_uid path_stat,
                   gid = st_gid path_stat,
                   isdir = is_dir,
                   isfile = \<not> is_dir\<rparr>))"

subsection \<open>\<^verbatim>\<open>PermissionRegex\<close>\<close>

record PermissionRegex =
  paths :: json
  file_mode :: "int option"
  dir_mode :: "int option"
  file_owner :: json
  file_group :: json
  dir_owner :: json
  dir_group :: json
  do_files :: "bool option"
  do_dirs :: "bool option"
  file_uid :: "nat option"
  file_gid :: "nat option"
  dir_uid :: "nat option"
  dir_gid :: "nat option"
  regex_paths :: "regex list"

text \<open>
  One identity lookup of \<^verbatim>\<open>__init__\<close>: nothing to do for \<^verbatim>\<open>None\<close>; the database
  raises \<^verbatim>\<open>KeyError\<close> for an unknown name, which the handler turns into the fatal
  \<open>Could_not_find\<close>, and \<^verbatim>\<open>TypeError\<close> for a value that is not a string.
\<close>

definition lookup_id :: "(string \<rightharpoonup> nat) \<Rightarrow> json \<Rightarrow> failure + nat option" where
  "lookup_id db v =
     (case v of
        JNull \<Rightarrow> Inr None
      | JStr name \<Rightarrow> (case db name of None \<Rightarrow> Inl (Could_not_find name) | Some n \<Rightarrow> Inr (Some n))
      | _ \<Rightarrow> Inl (Uncaught TypeError))"

text \<open>
  \<^verbatim>\<open>re.compile('^{}{}$'.format(root_path, path))\<close> for one element of \<^verbatim>\<open>paths\<close>. The
  model formats strings only.
\<close>

definition compile_path :: "string \<Rightarrow> json \<Rightarrow> failure + regex" where
  "compile_path root_path p =
     (case p of
        JStr s \<Rightarrow>
          (case re_compile (''^'' @ root_path @ s @ ''$'') of
             Parsed r \<Rightarrow> Inr r
           | Bad_pattern \<Rightarrow> Inl (Uncaught ReError)
           | Unsupported \<Rightarrow> Inl Outside_model)
      | _ \<Rightarrow> Inl Outside_model)"

fun compile_paths :: "string \<Rightarrow> json list \<Rightarrow> failure + regex list" where
  "compile_paths root_path [] = Inr []"
| "compile_paths root_path (p # ps) =
     bind (compile_path root_path p) (\<lambda>r.
     bind (compile_paths root_path ps) (\<lambda>rs. Inr (r # rs)))"

text \<open>
  \<^verbatim>\<open>for path in self.paths\<close>: a list gives its elements, a string its characters; a
  number, a boolean or \<^verbatim>\<open>None\<close> is not iterable.
\<close>

definition iter_paths :: "json \<Rightarrow> failure + json list" where
  "iter_paths v =
     (case v of
        JList xs \<Rightarrow> Inr xs
      | JStr s \<Rightarrow> Inr (map (\<lambda>c. JStr [c]) s)
      | JObj kvs \<Rightarrow> Inl Outside_model
      | _ \<Rightarrow> Inl (Uncaught TypeError))"

text \<open>\<^verbatim>\<open>PermissionRegex.__init__(root_path, kwargs)\<close>, statement by statement.\<close>

definition PermissionRegex_init ::
  "host \<Rightarrow> string \<Rightarrow> (string \<times> json) list \<Rightarrow> failure + PermissionRegex" where
  "PermissionRegex_init h root_path kwargs =
     bind (try_kwarg_required kwargs ''paths'') (\<lambda>ps.
     bind (to_mode (try_kwarg kwargs ''file_mode'' JNull)) (\<lambda>fm.
     bind (to_mode (try_kwarg kwargs ''dir_mode'' JNull)) (\<lambda>dm.
     bind (to_bool (try_kwarg kwargs ''do_files'' (JBool True))) (\<lambda>dof.
     bind (to_bool (try_kwarg kwargs ''do_dirs'' (JBool True))) (\<lambda>dod.
     bind (lookup_id (getpwnam h) (try_kwarg kwargs ''file_owner'' JNull)) (\<lambda>fu.
     bind (lookup_id (getgrnam h) (try_kwarg kwargs ''file_group'' JNull)) (\<lambda>fg.
     bind (lookup_id (getpwnam h) (try_kwarg kwargs ''dir_owner'' JNull)) (\<lambda>du.
     bind (lookup_id (getgrnam h) (try_kwarg kwargs ''dir_group'' JNull)) (\<lambda>dg.
     bind (iter_paths ps) (\<lambda>elems.
     bind (compile_paths root_path elems) (\<lambda>rs.
       Inr \<lparr>paths = ps, file_mode = fm, dir_mode = dm,
            file_owner = try_kwarg kwargs ''file_owner'' JNull,
            file_group = try_kwarg kwargs ''file_group'' JNull,
            dir_owner = try_kwarg kwargs ''dir_owner'' JNull,
            dir_group = try_kwarg kwargs ''dir_group'' JNull,
            do_files = dof, do_dirs = dod,
            file_uid = fu, file_gid = fg, dir_uid = du, dir_gid = dg,
            regex_paths = rs\<rparr>)))))))))))"

definition check_path :: "PermissionRegex \<Rightarrow> path_data \<Rightarrow> bool" where
  "check_path pr fspath =
     (if isfile fspath \<and> \<not> truthy (do_files pr) then False
      else if isdir fspath \<and> \<not> truthy (do_dirs pr) then False
      else list_ex (\<lambda>regex. re_match regex (path fspath)) (regex_paths pr))"


subsection \<open>\<^verbatim>\<open>PermissionRegex.apply\<close>\<close>

text \<open>
  A step of the run either ends the process, with the failure and the state reached, or
  gives a value and the next state.
\<close>

type_synonym 'a outcome = "(failure \<times> proc) + ('a \<times> proc)"

text \<open>
  The three \<^verbatim>\<open>if\<close> blocks of \<^verbatim>\<open>apply\<close>, each for the value the rule wants (the file
  or the directory attribute, as the branch has it). The record \<^verbatim>\<open>path_data\<close> is updated
  in place, so the next block compares with and passes on the value just set.
\<close>

definition apply_mode ::
  "host \<Rightarrow> int option \<Rightarrow> bool \<Rightarrow> path_data \<times> bool \<Rightarrow> proc \<Rightarrow> (path_data \<times> bool) outcome" where
  "apply_mode h want change_mode x st =
     (case x of (path_data, changed) \<Rightarrow>
        (case want of
           None \<Rightarrow> Inr (x, st)
         | Some m \<Rightarrow>
             if mode path_data \<noteq> m then
               (let st1 = add_to_changed_list (path path_data) st
                in if change_mode then
                     (case os_chmod h (path path_data) m st1 of
                        Inl e \<Rightarrow> Inl (e, st1)
                      | Inr st2 \<Rightarrow> Inr ((path_data\<lparr>mode := m\<rparr>, True), st2))
                   else Inr ((path_data, True), st1))
             else Inr (x, st)))"

definition apply_uid ::
  "host \<Rightarrow> nat option \<Rightarrow> bool \<Rightarrow> path_data \<times> bool \<Rightarrow> proc \<Rightarrow> (path_data \<times> bool) outcome" where
  "apply_uid h want change_mode x st =
     (case x of (path_data, changed) \<Rightarrow>
        (case want of
           None \<Rightarrow> Inr (x, st)
         | Some u \<Rightarrow>
             if uid path_data \<noteq> u then
               (let st1 = add_to_changed_list (path path_data) st
                in if change_mode then
                     (case os_chown h (path path_data) u (gid path_data) st1 of
                        Inl e \<Rightarrow> Inl (e, st1)
                      | Inr st2 \<Rightarrow> Inr ((path_data\<lparr>uid := u\<rparr>, True), st2))
                   else Inr ((path_data, True), st1))
             else Inr (x, st)))"

definition apply_gid ::
  "host \<Rightarrow> nat option \<Rightarrow> bool \<Rightarrow> path_data \<times> bool \<Rightarrow> proc \<Rightarrow> (path_data \<times> bool) outcome" where
  "apply_gid h want change_mode x st =
     (case x of (path_data, changed) \<Rightarrow>
        (case want of
           None \<Rightarrow> Inr (x, st)
         | Some g \<Rightarrow>
             if gid path_data \<noteq> g then
               (let st1 = add_to_changed_list (path path_data) st
                in if change_mode then
                     (case os_chown h (path path_data) (uid path_data) g st1 of
                        Inl e \<Rightarrow> Inl (e, st1)
                      | Inr st2 \<Rightarrow> Inr ((path_data\<lparr>gid := g\<rparr>, True), st2))
                   else Inr ((path_data, True), st1))
             else Inr (x, st)))"

definition then_do :: "'a outcome \<Rightarrow> ('a \<Rightarrow> proc \<Rightarrow> 'b outcome) \<Rightarrow> 'b outcome" where
  "then_do m f = (case m of Inl e \<Rightarrow> Inl e | Inr (x, st) \<Rightarrow> f x st)"

text \<open>
  \<^verbatim>\<open>apply(path_data, change_mode, changed)\<close>: the value is the updated record and the
  \<^verbatim>\<open>changed\<close> flag it returns.
\<close>

definition apply_rule ::
  "host \<Rightarrow> PermissionRegex \<Rightarrow> path_data \<Rightarrow> bool \<Rightarrow> bool \<Rightarrow> proc \<Rightarrow> (path_data \<times> bool) outcome" where
  "apply_rule h pr path_data change_mode changed st =
     (if isfile path_data then
        then_do (apply_mode h (file_mode pr) change_mode (path_data, changed) st) (\<lambda>x st1.
        then_do (apply_uid h (file_uid pr) change_mode x st1) (\<lambda>y st2.
        apply_gid h (file_gid pr) change_mode y st2))
      else if isdir path_data then
        then_do (apply_mode h (dir_mode pr) change_mode (path_data, changed) st) (\<lambda>x st1.
        then_do (apply_uid h (dir_uid pr) change_mode x st1) (\<lambda>y st2.
        apply_gid h (dir_gid pr) change_mode y st2))
      else Inr ((path_data, changed), st))"

subsection \<open>\<^verbatim>\<open>main\<close>\<close>

text \<open>
  The inner loop of \<^verbatim>\<open>main\<close> over the list \<^verbatim>\<open>regexp\<close>, with its \<^verbatim>\<open>break\<close>.
\<close>

fun scan ::
  "host \<Rightarrow> PermissionRegex list \<Rightarrow> bool \<Rightarrow> path_data \<Rightarrow> bool \<Rightarrow> proc \<Rightarrow> bool outcome" where
  "scan h [] change_mode fspath changed st = Inr (changed, st)"
| "scan h (pr # prs) change_mode fspath changed st =
     (if check_path pr fspath then
        then_do (apply_rule h pr fspath change_mode changed st) (\<lambda>x st'. Inr (snd x, st'))
      else scan h prs change_mode fspath changed st)"

text \<open>One turn of the outer loop, for the entry that \<^verbatim>\<open>iterate_fstree\<close> yields for a path.\<close>

definition visit ::
  "host \<Rightarrow> PermissionRegex list \<Rightarrow> bool \<Rightarrow> string \<Rightarrow> bool \<Rightarrow> proc \<Rightarrow> bool outcome" where
  "visit h regexp change_mode p changed st =
     (case collect_path_data h (inodes st) p of
        Inl e \<Rightarrow> Inl (e, st)
      | Inr fspath \<Rightarrow> scan h regexp change_mode fspath changed st)"

text \<open>
  The paths \<^verbatim>\<open>os.path.join(root, current_path)\<close> of the walk, in the order of the
  generator. \<^verbatim>\<open>iterate_fstree\<close> is lazy: each path is normalised and its record is
  collected when the loop reaches it, after the entries before it have been dealt with.
\<close>

definition walk_paths :: "host \<Rightarrow> string \<Rightarrow> string list" where
  "walk_paths h rootpath =
     concat (map (\<lambda>(root, dirs, files). map (path_join root) (dirs @ files)) (os_walk h rootpath))"

fun visit_all ::
  "host \<Rightarrow> PermissionRegex list \<Rightarrow> bool \<Rightarrow> string list \<Rightarrow> bool \<Rightarrow> proc \<Rightarrow> bool outcome" where
  "visit_all h regexp change_mode [] changed st = Inr (changed, st)"
| "visit_all h regexp change_mode (p # ps) changed st =
     (case visit h regexp change_mode (normpath h (inodes st) p) changed st of
        Inl e \<Rightarrow> Inl e
      | Inr (changed', st') \<Rightarrow> visit_all h regexp change_mode ps changed' st')"

text \<open>The loop \<^verbatim>\<open>for fspath in iterate_fstree(args['root_path'])\<close>.\<close>

definition reconcile ::
  "host \<Rightarrow> PermissionRegex list \<Rightarrow> bool \<Rightarrow> string \<Rightarrow> bool \<Rightarrow> proc \<Rightarrow> bool outcome" where
  "reconcile h regexp change_mode root_path changed st =
     (let rootpath = normpath h (inodes st) root_path
      in if os_path_exists h (inodes st) rootpath then
           then_do (visit h regexp change_mode rootpath changed st)
             (\<lambda>changed' st'. visit_all h regexp change_mode (walk_paths h rootpath) changed' st')
         else Inr (changed, st))"

text \<open>
  The loop that builds \<^verbatim>\<open>regexp\<close>: a declaration that is no object is refused, and
  every rule is inserted at position 0.
\<close>

definition compile_rule :: "host \<Rightarrow> string \<Rightarrow> json \<Rightarrow> failure + PermissionRegex" where
  "compile_rule h root_path data =
     (case data of
        JObj kwargs \<Rightarrow> PermissionRegex_init h root_path kwargs
      | _ \<Rightarrow> Inl Regexp_must_be_a_list)"

fun compile_rules ::
  "host \<Rightarrow> string \<Rightarrow> PermissionRegex list \<Rightarrow> json list \<Rightarrow> failure + PermissionRegex list" where
  "compile_rules h root_path regexp [] = Inr regexp"
| "compile_rules h root_path regexp (data # rest) =
     bind (compile_rule h root_path data) (\<lambda>pr. compile_rules h root_path (pr # regexp) rest)"

text \<open>
  The checks of \<^verbatim>\<open>main\<close> on \<^verbatim>\<open>root_path\<close> and \<^verbatim>\<open>regexp\<close> and the compilation of the
  rules. The model takes a \<^verbatim>\<open>root_path\<close> that is a string.
\<close>

definition configure ::
  "host \<Rightarrow> (nat \<rightharpoonup> inode) \<Rightarrow> (string \<times> json) list \<Rightarrow>
     failure + (string \<times> PermissionRegex list)" where
  "configure h tab args =
     bind (case dict_get args ''root_path'' of
             None \<Rightarrow> Inl Missing_root_path
           | Some (JStr root_path) \<Rightarrow>
               if os_path_isdir h tab root_path then Inr root_path
               else Inl (Must_be_a_directory root_path)
           | Some _ \<Rightarrow> Inl Outside_model) (\<lambda>root_path.
     bind (case dict_get args ''regexp'' of
             None \<Rightarrow> Inl Missing_regexp
           | Some (JList decls) \<Rightarrow> Inr decls
           | Some _ \<Rightarrow> Inl Regexp_must_be_a_list) (\<lambda>decls.
     bind (compile_rules h root_path [] decls) (\<lambda>regexp. Inr (root_path, regexp))))"

text \<open>
  \<^verbatim>\<open>debug = to_bool(args['debug'])\<close>, or \<^verbatim>\<open>False\<close> when the key is missing.
\<close>

definition read_debug :: "(string \<times> json) list \<Rightarrow> failure + bool option" where
  "read_debug args =
     (case dict_get args ''debug'' of None \<Rightarrow> Inr (Some False) | Some v \<Rightarrow> to_bool v)"

record result =
  changed :: bool
  result_changed_list :: "string list option"

text \<open>
  \<^verbatim>\<open>main\<close>, from the loaded arguments on, started on an inode table. The value is how
  the run ends (a failure, or the result payload, whose key \<^verbatim>\<open>changed_list\<close> is present
  only under \<^verbatim>\<open>debug\<close>) and the state it leaves.
\<close>

definition main :: "host \<Rightarrow> (string \<times> json) list \<Rightarrow> (nat \<rightharpoonup> inode) \<Rightarrow> (failure + result) \<times> proc" where
  "main h args tab =
     (let st0 = \<lparr>inodes = tab, calls = [], debug = Some False, changed_list = []\<rparr>
      in case read_debug args of
           Inl e \<Rightarrow> (Inl e, st0)
         | Inr dbg \<Rightarrow>
             (let st1 = st0\<lparr>debug := dbg\<rparr>
              in case configure h tab args of
                   Inl e \<Rightarrow> (Inl e, st1)
                 | Inr (root_path, regexp) \<Rightarrow>
                     (case reconcile h regexp True root_path False st1 of
                        Inl (e, st') \<Rightarrow> (Inl e, st')
                      | Inr (c, st') \<Rightarrow>
                          (Inr \<lparr>changed = c,
                                result_changed_list =
                                  (if truthy (debug st') then Some (changed_list st') else None)\<rparr>,
                           st'))))"

section \<open>Notions used to state the properties\<close>

text \<open>The value of a string of octal digits read as a base-8 numeral.\<close>

definition oct_value :: "string \<Rightarrow> int" where
  "oct_value s = foldl (\<lambda>acc c. acc * 8 + oct_val c) 0 s"

text \<open>
  The value a rule holds for each attribute of an entry, by the entry's type: the branch
  of \<^verbatim>\<open>apply\<close> that the entry takes.
\<close>

definition wanted_mode :: "PermissionRegex \<Rightarrow> path_data \<Rightarrow> int option" where
  "wanted_mode pr fspath =
     (if isfile fspath then file_mode pr else if isdir fspath then dir_mode pr else None)"

definition wanted_uid :: "PermissionRegex \<Rightarrow> path_data \<Rightarrow> nat option" where
  "wanted_uid pr fspath =
     (if isfile fspath then file_uid pr else if isdir fspath then dir_uid pr else None)"

definition wanted_gid :: "PermissionRegex \<Rightarrow> path_data \<Rightarrow> nat option" where
  "wanted_gid pr fspath =
     (if isfile fspath then file_gid pr else if isdir fspath then dir_gid pr else None)"

text \<open>
  The calls that applying a rule to an entry makes when \<^verbatim>\<open>change_mode\<close> is on, in the
  order of the three blocks of \<^verbatim>\<open>apply\<close>, and the path a call names.
\<close>

definition attribute_calls :: "PermissionRegex \<Rightarrow> path_data \<Rightarrow> syscall list" where
  "attribute_calls pr fspath =
     (case wanted_mode pr fspath of
        None \<Rightarrow> []
      | Some m \<Rightarrow> if m \<noteq> mode fspath then [Chmod (path fspath) m] else []) @
     (case wanted_uid pr fspath of
        None \<Rightarrow> []
      | Some u \<Rightarrow> if u \<noteq> uid fspath then [Chown (path fspath) u (gid fspath)] else []) @
     (case wanted_gid pr fspath of
        None \<Rightarrow> []
      | Some g \<Rightarrow>
          if g \<noteq> gid fspath
          then [Chown (path fspath) (case wanted_uid pr fspath of None \<Rightarrow> uid fspath | Some u \<Rightarrow> u) g]
          else [])"

fun call_path :: "syscall \<Rightarrow> string" where
  "call_path (Chmod p m) = p"
| "call_path (Chown p u g) = p"

text \<open>
  How a stretch of the run in apply mode shows in the state: the calls it made are
  appended, the flag is raised if and only if there is such a call, and under
  \<^verbatim>\<open>debug\<close> the path of each call is appended to \<^verbatim>\<open>changed_list\<close>.
\<close>

definition reported :: "proc \<Rightarrow> bool \<Rightarrow> proc \<Rightarrow> bool \<Rightarrow> bool" where
  "reported st chg st' chg' =
     (\<exists>new. calls st' = calls st @ new \<and>
            chg' = (chg \<or> new \<noteq> []) \<and>
            changed_list st' =
              changed_list st @ (if truthy (debug st) then map call_path new else []) \<and>
            debug st' = debug st)"

text \<open>
  A rule declaration names an unknown identity when one of its four owner and group keys
  holds a string that the database it is looked up in does not know. It is otherwise
  well formed when \<^verbatim>\<open>paths\<close> is present, both modes and both flags are accepted, and
  the four keys hold strings or nothing.
\<close>

definition names_unknown :: "host \<Rightarrow> (string \<times> json) list \<Rightarrow> string \<Rightarrow> bool" where
  "names_unknown h kwargs name =
     ((dict_get kwargs ''file_owner'' = Some (JStr name) \<and> getpwnam h name = None) \<or>
      (dict_get kwargs ''file_group'' = Some (JStr name) \<and> getgrnam h name = None) \<or>
      (dict_get kwargs ''dir_owner'' = Some (JStr name) \<and> getpwnam h name = None) \<or>
      (dict_get kwargs ''dir_group'' = Some (JStr name) \<and> getgrnam h name = None))"

definition name_or_none :: "json \<Rightarrow> bool" where
  "name_or_none v = (case v of JNull \<Rightarrow> True | JStr _ \<Rightarrow> True | _ \<Rightarrow> False)"

definition otherwise_well_formed :: "(string \<times> json) list \<Rightarrow> bool" where
  "otherwise_well_formed kwargs =
     (dict_get kwargs ''paths'' \<noteq> None \<and>
      \<not> isl (to_mode (try_kwarg kwargs ''file_mode'' JNull)) \<and>
      \<not> isl (to_mode (try_kwarg kwargs ''dir_mode'' JNull)) \<and>
      \<not> isl (to_bool (try_kwarg kwargs ''do_files'' (JBool True))) \<and>
      \<not> isl (to_bool (try_kwarg kwargs ''do_dirs'' (JBool True))) \<and>
      name_or_none (try_kwarg kwargs ''file_owner'' JNull) \<and>
      name_or_none (try_kwarg kwargs ''file_group'' JNull) \<and>
      name_or_none (try_kwarg kwargs ''dir_owner'' JNull) \<and>
      name_or_none (try_kwarg kwargs ''dir_group'' JNull))"

section \<open>A small host and some configurations\<close>

text \<open>
  A directory \<^verbatim>\<open>/app\<close> (inode 1, mode \<^verbatim>\<open>0o755\<close>) with a regular file \<^verbatim>\<open>f\<close> (inode 2,
  mode \<^verbatim>\<open>0o644\<close>), a directory \<^verbatim>\<open>d\<close> (inode 3) and a symbolic link \<^verbatim>\<open>l\<close> to \<^verbatim>\<open>d\<close>
  (inode 4, owned by user 1001). A name with a slash at its end is resolved through the
  link by \<^verbatim>\<open>lstat\<close> as well.
\<close>

definition host_app :: host where
  "host_app =
     \<lparr>getcwd = ''/'',
      lstat_ino = map_of [(''/app'', 1), (''/app/'', 1), (''/app/f'', 2), (''/app/d'', 3),
                          (''/app/d/'', 3), (''/app/l'', 4), (''/app/l/'', 3)],
      stat_ino = map_of [(''/app'', 1), (''/app/'', 1), (''/app/f'', 2), (''/app/d'', 3),
                         (''/app/d/'', 3), (''/app/l'', 3), (''/app/l/'', 3)],
      os_walk = (\<lambda>top. if top = ''/app/''
                        then [(''/app/'', [''d'', ''l''], [''f'']), (''/app/d'', [], [])]
                        else []),
      getpwnam = map_of [(''root'', 0), (''bob'', 1001)],
      getgrnam = map_of [(''root'', 0), (''staff'', 50)]\<rparr>"

definition tab_app :: "nat \<rightharpoonup> inode" where
  "tab_app =
     map_of [(1, \<lparr>st_mode = 16877, st_uid = 0, st_gid = 0\<rparr>),
             (2, \<lparr>st_mode = 33188, st_uid = 0, st_gid = 0\<rparr>),
             (3, \<lparr>st_mode = 16877, st_uid = 0, st_gid = 0\<rparr>),
             (4, \<lparr>st_mode = 41471, st_uid = 1001, st_gid = 50\<rparr>)]"

text \<open>A rule declaration with \<^verbatim>\<open>do_files: null\<close>, and the rule it compiles to.\<close>

definition kw_null :: "(string \<times> json) list" where
  "kw_null = [(''paths'', JList [JStr ''/.*'']), (''do_files'', JNull)]"

definition pr_null :: PermissionRegex where
  "pr_null =
     \<lparr>paths = JList [JStr ''/.*''], file_mode = None, dir_mode = None,
      file_owner = JNull, file_group = JNull, dir_owner = JNull, dir_group = JNull,
      do_files = None, do_dirs = Some True,
      file_uid = None, file_gid = None, dir_uid = None, dir_gid = None,
      regex_paths =
        [[[Bol, One (Lit CHR ''/''), One (Lit CHR ''a''), One (Lit CHR ''p''),
           One (Lit CHR ''p''), One (Lit CHR ''/''), Star Any, Eol]]]\<rparr>"

text \<open>A configuration whose second rule has a mode that is no octal numeral.\<close>

definition args_bad_mode :: "(string \<times> json) list" where
  "args_bad_mode =
     [(''root_path'', JStr ''/app''),
      (''regexp'', JList [JObj [(''paths'', JList [JStr ''/.*'']), (''file_mode'', JStr ''644'')],
                          JObj [(''paths'', JList [JStr ''/f'']), (''file_mode'', JStr ''688'')]])]"

text \<open>
  Two rule declarations: the first for everything below \<^verbatim>\<open>d\<close>, the second for the file
  \<^verbatim>\<open>f\<close> alone; the rules they compile to; the records of \<^verbatim>\<open>/app/\<close> and
  \<^verbatim>\<open>/app/f\<close>; and a state of the run.
\<close>

definition decls_two :: "json list" where
  "decls_two =
     [JObj [(''paths'', JList [JStr ''/d/.*'']), (''file_mode'', JStr ''644''),
            (''dir_mode'', JStr ''755'')],
      JObj [(''paths'', JList [JStr ''/f'']), (''file_mode'', JStr ''600''),
            (''file_owner'', JStr ''bob'')]]"

definition pr_d :: PermissionRegex where
  "pr_d =
     \<lparr>paths = JList [JStr ''/d/.*''], file_mode = Some 420, dir_mode = Some 493,
      file_owner = JNull, file_group = JNull, dir_owner = JNull, dir_group = JNull,
      do_files = Some True, do_dirs = Some True,
      file_uid = None, file_gid = None, dir_uid = None, dir_gid = None,
      regex_paths =
        [[[Bol, One (Lit CHR ''/''), One (Lit CHR ''a''), One (Lit CHR ''p''),
           One (Lit CHR ''p''), One (Lit CHR ''/''), One (Lit CHR ''d''),
           One (Lit CHR ''/''), Star Any, Eol]]]\<rparr>"

definition pr_f :: PermissionRegex where
  "pr_f =
     \<lparr>paths = JList [JStr ''/f''], file_mode = Some 384, dir_mode = None,
      file_owner = JStr ''bob'', file_group = JNull, dir_owner = JNull, dir_group = JNull,
      do_files = Some True, do_dirs = Some True,
      file_uid = Some 1001, file_gid = None, dir_uid = None, dir_gid = None,
      regex_paths =
        [[[Bol, One (Lit CHR ''/''), One (Lit CHR ''a''), One (Lit CHR ''p''),
           One (Lit CHR ''p''), One (Lit CHR ''/''), One (Lit CHR ''f''), Eol]]]\<rparr>"

definition rec_root :: path_data where
  "rec_root = \<lparr>path = ''/app/'', mode = 493, uid = 0, gid = 0, isdir = True, isfile = False\<rparr>"

definition rec_f :: path_data where
  "rec_f = \<lparr>path = ''/app/f'', mode = 420, uid = 0, gid = 0, isdir = False, isfile = True\<rparr>"

definition st_app :: proc where
  "st_app = \<lparr>inodes = tab_app, calls = [], debug = Some True, changed_list = []\<rparr>"

text \<open>
  A configuration with \<^verbatim>\<open>debug\<close> on: a rule for everything below the root and, declared
  after it, a rule for the root directory alone. The same without \<^verbatim>\<open>debug\<close>.
\<close>

definition regexp_app :: json where
  "regexp_app =
     JList [JObj [(''paths'', JList [JStr ''/.*'']), (''file_mode'', JStr ''600''),
                  (''dir_mode'', JInt 493), (''file_owner'', JStr ''bob'')],
            JObj [(''paths'', JList [JStr ''/'']), (''dir_mode'', JStr ''750'')]]"

definition args_debug :: "(string \<times> json) list" where
  "args_debug = [(''root_path'', JStr ''/app''), (''debug'', JStr ''yes''), (''regexp'', regexp_app)]"

definition args_quiet :: "(string \<times> json) list" where
  "args_quiet = [(''root_path'', JStr ''/app''), (''regexp'', regexp_app)]"

text \<open>A configuration whose second rule names an owner the host does not know.\<close>

definition kw_unknown :: "(string \<times> json) list" where
  "kw_unknown = [(''paths'', JList [JStr ''/f'']), (''file_owner'', JStr ''mallory'')]"

definition args_unknown_owner :: "(string \<times> json) list" where
  "args_unknown_owner =
     [(''root_path'', JStr ''/app''),
      (''regexp'', JList [JObj [(''paths'', JList [JStr ''/.*'']), (''file_mode'', JStr ''600'')],
                          JObj kw_unknown])]"







text \<open>
  The same tree with the file \<^verbatim>\<open>f\<close> at mode \<^verbatim>\<open>0o4755\<close>, and a configuration whose one
  rule gives the file an owner and nothing else.
\<close>

definition tab_suid :: "nat \<rightharpoonup> inode" where
  "tab_suid =
     map_of [(1, \<lparr>st_mode = 16877, st_uid = 0, st_gid = 0\<rparr>),
             (2, \<lparr>st_mode = 35309, st_uid = 0, st_gid = 0\<rparr>),
             (3, \<lparr>st_mode = 16877, st_uid = 0, st_gid = 0\<rparr>),
             (4, \<lparr>st_mode = 41471, st_uid = 1001, st_gid = 50\<rparr>)]"

definition args_owner_only :: "(string \<times> json) list" where
  "args_owner_only =
     [(''root_path'', JStr ''/app''),
      (''regexp'', JList [JObj [(''paths'', JList [JStr ''/f'']), (''file_owner'', JStr ''bob'')]])]"

text \<open>
  A directory \<^verbatim>\<open>/app\<close> with a regular file \<^verbatim>\<open>f\<close> (inode 2, mode \<^verbatim>\<open>0o644\<close>, owner and
  group 33) and a symbolic link \<^verbatim>\<open>lf\<close> to \<^verbatim>\<open>f\<close> (inode 5, owner and group 0); a
  configuration whose one rule gives every file the owner \<^verbatim>\<open>www\<close>, user 33, and one
  whose one rule gives the link the mode \<^verbatim>\<open>0o644\<close>.
\<close>

definition host_link :: host where
  "host_link =
     \<lparr>getcwd = ''/'',
      lstat_ino = map_of [(''/app'', 1), (''/app/'', 1), (''/app/f'', 2), (''/app/lf'', 5)],
      stat_ino = map_of [(''/app'', 1), (''/app/'', 1), (''/app/f'', 2), (''/app/lf'', 2)],
      os_walk = (\<lambda>top. if top = ''/app/'' then [(''/app/'', [], [''f'', ''lf''])] else []),
      getpwnam = map_of [(''root'', 0), (''www'', 33)],
      getgrnam = map_of [(''root'', 0), (''www'', 33)]\<rparr>"

definition tab_link :: "nat \<rightharpoonup> inode" where
  "tab_link =
     map_of [(1, \<lparr>st_mode = 16877, st_uid = 0, st_gid = 0\<rparr>),
             (2, \<lparr>st_mode = 33188, st_uid = 33, st_gid = 33\<rparr>),
             (5, \<lparr>st_mode = 41471, st_uid = 0, st_gid = 0\<rparr>)]"

definition args_www :: "(string \<times> json) list" where
  "args_www =
     [(''root_path'', JStr ''/app''),
      (''regexp'', JList [JObj [(''paths'', JList [JStr ''/.*'']), (''file_owner'', JStr ''www'')]])]"





section \<open>Properties\<close>

subsection \<open>Sequencing\<close>

lemma bind_Inr_iff: "bind m f = Inr y \<longleftrightarrow> (\<exists>x. m = Inr x \<and> f x = Inr y)"
  by (cases m) (simp_all add: bind_def)

lemma bind_Inl: "m = Inl e \<Longrightarrow> bind m f = Inl e"
  by (simp add: bind_def)

lemma bind_Inr: "m = Inr x \<Longrightarrow> bind m f = f x"
  by (simp add: bind_def)

subsection \<open>What a compiled rule holds\<close>

lemma init_fields:
  assumes "PermissionRegex_init h root_path kwargs = Inr pr"
  shows "to_bool (try_kwarg kwargs ''do_files'' (JBool True)) = Inr (do_files pr)"
    and "to_bool (try_kwarg kwargs ''do_dirs'' (JBool True)) = Inr (do_dirs pr)"
    and "to_mode (try_kwarg kwargs ''file_mode'' JNull) = Inr (file_mode pr)"
    and "to_mode (try_kwarg kwargs ''dir_mode'' JNull) = Inr (dir_mode pr)"
    and "lookup_id (getpwnam h) (try_kwarg kwargs ''file_owner'' JNull) = Inr (file_uid pr)"
    and "lookup_id (getgrnam h) (try_kwarg kwargs ''file_group'' JNull) = Inr (file_gid pr)"
    and "lookup_id (getpwnam h) (try_kwarg kwargs ''dir_owner'' JNull) = Inr (dir_uid pr)"
    and "lookup_id (getgrnam h) (try_kwarg kwargs ''dir_group'' JNull) = Inr (dir_gid pr)"
  using assms unfolding PermissionRegex_init_def bind_Inr_iff by auto

subsection \<open>Failures before the walk\<close>

lemma compile_rules_fails:
  assumes "JObj kwargs \<in> set decls" and "PermissionRegex_init h root_path kwargs = Inl e"
  shows "\<exists>e'. compile_rules h root_path regexp decls = Inl e'"
  using assms
proof (induction decls arbitrary: regexp)
  case Nil
  then show ?case by simp
next
  case (Cons d decls)
  show ?case
  proof (cases "compile_rule h root_path d")
    case (Inl a)
    then show ?thesis by (simp add: bind_def)
  next
    case (Inr pr)
    with Cons.prems have "JObj kwargs \<in> set decls"
      by (auto simp: compile_rule_def)
    from Cons.IH [OF this Cons.prems(2)] show ?thesis
      using Inr by (simp add: bind_def)
  qed
qed

lemma main_configure_fails:
  assumes "dict_get args ''regexp'' = Some (JList decls)"
    and "\<And>root_path. \<exists>e. compile_rules h root_path [] decls = Inl e"
  shows "\<exists>e st. main h args tab = (Inl e, st) \<and> inodes st = tab \<and> calls st = [] \<and> changed_list st = []"
proof -
  have "\<exists>e. configure h tab args = Inl e"
  proof (cases "configure h tab args")
    case (Inr x)
    then obtain rp rs where "compile_rules h rp [] decls = Inr rs"
      using assms(1) by (auto simp: configure_def bind_Inr_iff split: option.splits json.splits if_splits)
    with assms(2)[of rp] show ?thesis by simp
  qed auto
  note cf = this
  show ?thesis
  proof (cases "read_debug args")
    case (Inl e)
    then show ?thesis by (simp add: main_def)
  next
    case (Inr dbg)
    from cf obtain e where "configure h tab args = Inl e"
      by blast
    with Inr show ?thesis by (simp add: main_def)
  qed
qed

lemma init_bad_mode:
  assumes "int8 s = None"
    and "dict_get kwargs ''file_mode'' = Some (JStr s) \<or> dict_get kwargs ''dir_mode'' = Some (JStr s)"
  shows "\<exists>e. PermissionRegex_init h root_path kwargs = Inl e"
proof (cases "PermissionRegex_init h root_path kwargs")
  case (Inr pr)
  from init_fields(3,4)[OF Inr] assms show ?thesis
    by (auto simp: try_kwarg_def to_mode_def)
qed auto

subsection \<open>An explicit null for \<^verbatim>\<open>do_files\<close> or \<^verbatim>\<open>do_dirs\<close>\<close>

text \<open>
  C10. \<^verbatim>\<open>to_bool\<close> maps \<^verbatim>\<open>None\<close> to \<^verbatim>\<open>None\<close>, and \<^verbatim>\<open>check_path\<close> treats it as
  false: a rule declared with \<^verbatim>\<open>do_files: null\<close> applies to no file, one declared with
  \<^verbatim>\<open>do_dirs: null\<close> to no directory, whatever its patterns; a rule that omits the key
  holds \<^verbatim>\<open>True\<close>.
\<close>

theorem null_flag_disables_rule:
  assumes "PermissionRegex_init h root_path kwargs = Inr pr"
  shows "to_bool JNull = Inr None \<and>
         (dict_get kwargs ''do_files'' = Some JNull \<longrightarrow>
            do_files pr = None \<and> (\<forall>fspath. isfile fspath \<longrightarrow> \<not> check_path pr fspath)) \<and>
         (dict_get kwargs ''do_dirs'' = Some JNull \<longrightarrow>
            do_dirs pr = None \<and> (\<forall>fspath. isdir fspath \<longrightarrow> \<not> check_path pr fspath)) \<and>
         (dict_get kwargs ''do_files'' = None \<longrightarrow> do_files pr = Some True) \<and>
         (dict_get kwargs ''do_dirs'' = None \<longrightarrow> do_dirs pr = Some True)"
  using init_fields(1,2)[OF assms]
  by (auto simp: to_bool_def try_kwarg_def check_path_def truthy_def)

theorem null_flag_disables_rule_witness:
  "PermissionRegex_init host_app ''/app'' kw_null = Inr pr_null \<and>
   dict_get kw_null ''do_files'' = Some JNull \<and>
   dict_get kw_null ''do_dirs'' = None \<and>
   \<not> check_path pr_null
       \<lparr>path = ''/app/f'', mode = 420, uid = 0, gid = 0, isdir = False, isfile = True\<rparr> \<and>
   do_dirs pr_null = Some True"
proof -
  have i: "PermissionRegex_init host_app ''/app'' kw_null = Inr pr_null"
    by code_simp
  have d: "dict_get kw_null ''do_files'' = Some JNull" "dict_get kw_null ''do_dirs'' = None"
    by (simp_all add: dict_get_def kw_null_def)
  from null_flag_disables_rule [OF i] d i show ?thesis
    by simp
qed

subsection \<open>Modes given as strings and as integers\<close>

lemma oct_body_digits:
  "list_all is_oct s \<Longrightarrow> oct_body acc s = Some (foldl (\<lambda>a c. a * 8 + oct_val c) acc s, [])"
  by (induction s arbitrary: acc) simp_all

lemma int8_digits:
  assumes "s \<noteq> []" and "list_all is_oct s"
  shows "int8 s = Some (oct_value s)"
proof -
  from assms obtain d ds where s: "s = d # ds" and d: "is_oct d" and ds: "list_all is_oct ds"
    by (cases s) auto
  have nsp: "\<not> is_space d" using d by (auto simp: is_space_def is_oct_def)
  have nsign: "d \<noteq> CHR ''+''" "d \<noteq> CHR ''-''" using d by (auto simp: is_oct_def)
  have pre: "strip_prefix8 (d # ds) = d # ds"
    using ds by (auto simp: strip_prefix8_def is_oct_def split: list.splits)
  have num: "oct_numeral (d # ds) = Some (oct_value (d # ds), [])"
    using d ds by (simp add: oct_numeral_def oct_body_digits oct_value_def)
  show ?thesis
    using nsp nsign pre num by (simp add: int8_def s)
qed

text \<open>
  C9. \<^verbatim>\<open>to_mode\<close> returns an integer as it is and reads a string with
  \<^verbatim>\<open>int(value, 8)\<close>: a string of octal digits denotes its base-8 value, so the string
  \<^verbatim>\<open>"644"\<close> is 420 and the integer 644 is 644. A string that \<^verbatim>\<open>int(value, 8)\<close>
  rejects makes \<^verbatim>\<open>to_mode\<close> fail, and a rule declaration with such a mode ends the run
  before the walk: no call was made and the inode table is as it was.
\<close>

theorem to_mode_string_octal_integer_verbatim:
  "to_mode (JInt n) = Inr (Some n) \<and>
   (s \<noteq> [] \<and> list_all is_oct s \<longrightarrow> to_mode (JStr s) = Inr (Some (oct_value s))) \<and>
   to_mode (JStr ''644'') = Inr (Some 420) \<and>
   to_mode (JInt 644) = Inr (Some 644) \<and>
   (int8 s = None \<longrightarrow> to_mode (JStr s) = Inl (Not_an_integer (JStr s))) \<and>
   (int8 s = None \<and> dict_get args ''regexp'' = Some (JList decls) \<and> JObj kwargs \<in> set decls \<and>
    (dict_get kwargs ''file_mode'' = Some (JStr s) \<or> dict_get kwargs ''dir_mode'' = Some (JStr s))
    \<longrightarrow> (\<exists>e st. main h args tab = (Inl e, st) \<and> inodes st = tab \<and> calls st = []))"
proof -
  have a: "to_mode (JInt n) = Inr (Some n)"
    by (simp add: to_mode_def)
  have b: "to_mode (JStr s) = Inr (Some (oct_value s))" if "s \<noteq> []" "list_all is_oct s"
    using int8_digits [OF that] by (simp add: to_mode_def)
  have c: "to_mode (JStr ''644'') = Inr (Some 420)"
    by code_simp
  have d: "to_mode (JInt 644) = Inr (Some 644)"
    by (simp add: to_mode_def)
  have e: "to_mode (JStr s) = Inl (Not_an_integer (JStr s))" if "int8 s = None"
    using that by (simp add: to_mode_def)
  have f: "\<exists>e st. main h args tab = (Inl e, st) \<and> inodes st = tab \<and> calls st = []"
    if bad: "int8 s = None" and r: "dict_get args ''regexp'' = Some (JList decls)"
      and k: "JObj kwargs \<in> set decls"
      and m: "dict_get kwargs ''file_mode'' = Some (JStr s) \<or>
              dict_get kwargs ''dir_mode'' = Some (JStr s)"
  proof -
    have "\<exists>e. compile_rules h root_path [] decls = Inl e" for root_path
      using init_bad_mode [OF bad m] compile_rules_fails [OF k] by blast
    from main_configure_fails [OF r this] show ?thesis
      by blast
  qed
  from a b c d e f show ?thesis
    by blast
qed

theorem to_mode_string_octal_integer_verbatim_witness:
  "int8 ''688'' = None \<and>
   dict_get args_bad_mode ''regexp'' =
     Some (JList [JObj [(''paths'', JList [JStr ''/.*'']), (''file_mode'', JStr ''644'')],
                  JObj [(''paths'', JList [JStr ''/f'']), (''file_mode'', JStr ''688'')]]) \<and>
   fst (main host_app args_bad_mode tab_app) = Inl (Not_an_integer (JStr ''688'')) \<and>
   inodes (snd (main host_app args_bad_mode tab_app)) = tab_app \<and>
   calls (snd (main host_app args_bad_mode tab_app)) = [] \<and>
   to_mode (JStr ''755'') = Inr (Some (oct_value ''755'')) \<and>
   oct_value ''755'' = 493"
proof -
  have bad: "int8 ''688'' = None"
    by code_simp
  have r: "dict_get args_bad_mode ''regexp'' =
     Some (JList [JObj [(''paths'', JList [JStr ''/.*'']), (''file_mode'', JStr ''644'')],
                  JObj [(''paths'', JList [JStr ''/f'']), (''file_mode'', JStr ''688'')]])"
    by (simp add: dict_get_def args_bad_mode_def)
  have k: "dict_get [(''paths'', JList [JStr ''/f'']), (''file_mode'', JStr ''688'')] ''file_mode''
             = Some (JStr ''688'')"
    by (simp add: dict_get_def)
  have e: "fst (main host_app args_bad_mode tab_app) = Inl (Not_an_integer (JStr ''688''))"
    by code_simp
  have v: "oct_value ''755'' = 493"
    by code_simp
  have o: "''755'' \<noteq> [] \<and> list_all is_oct ''755''"
    by (simp add: is_oct_def)
  from to_mode_string_octal_integer_verbatim
         [where n = 644 and s = "''688''" and args = args_bad_mode and h = host_app and tab = tab_app
            and kwargs = "[(''paths'', JList [JStr ''/f'']), (''file_mode'', JStr ''688'')]"
            and decls = "[JObj [(''paths'', JList [JStr ''/.*'']), (''file_mode'', JStr ''644'')],
                          JObj [(''paths'', JList [JStr ''/f'']), (''file_mode'', JStr ''688'')]]"]
       bad r k
  have "inodes (snd (main host_app args_bad_mode tab_app)) = tab_app \<and>
        calls (snd (main host_app args_bad_mode tab_app)) = []"
    by auto
  moreover from to_mode_string_octal_integer_verbatim [where n = 644 and s = "''755''"] o
  have "to_mode (JStr ''755'') = Inr (Some (oct_value ''755''))"
    by blast
  ultimately show ?thesis
    using bad r e v by simp
qed

subsection \<open>The order in which rules are tried\<close>

lemma compile_rules_rev:
  assumes "compile_rules h root_path acc decls = Inr regexp"
  shows "\<exists>rules. map (compile_rule h root_path) decls = map Inr rules \<and> regexp = rev rules @ acc"
  using assms
proof (induction decls arbitrary: acc)
  case Nil
  then show ?case by simp
next
  case (Cons d decls)
  from Cons.prems obtain pr where d: "compile_rule h root_path d = Inr pr"
    and rest: "compile_rules h root_path (pr # acc) decls = Inr regexp"
    by (auto simp: bind_Inr_iff)
  from Cons.IH [OF rest] obtain rules where
    "map (compile_rule h root_path) decls = map Inr rules" "regexp = rev rules @ pr # acc"
    by blast
  with d have "map (compile_rule h root_path) (d # decls) = map Inr (pr # rules) \<and>
               regexp = rev (pr # rules) @ acc"
    by simp
  then show ?case by blast
qed

lemma scan_find:
  "scan h regexp cm fspath chg st =
     (case find (\<lambda>pr. check_path pr fspath) regexp of
        None \<Rightarrow> Inr (chg, st)
      | Some pr \<Rightarrow> then_do (apply_rule h pr fspath cm chg st) (\<lambda>x st'. Inr (snd x, st')))"
  by (induction regexp) simp_all

lemma find_first:
  "check_path pr fspath \<Longrightarrow> \<forall>q\<in>set before. \<not> check_path q fspath \<Longrightarrow>
   find (\<lambda>pr. check_path pr fspath) (before @ pr # after) = Some pr"
  by (induction before) simp_all

text \<open>
  C1. The list \<^verbatim>\<open>regexp\<close> that \<^verbatim>\<open>main\<close> builds is the compiled declarations in
  reverse order. For every entry the scan applies the first rule of that list whose
  \<^verbatim>\<open>check_path\<close> (applicability flag and pattern match) is true, and nothing else:
  what follows that rule in the list has no influence on the outcome. An entry that no
  rule's check accepts leaves the scan with the state it entered with: no call is made,
  nothing is recorded, the inode table and the \<^verbatim>\<open>changed\<close> flag are as before.
\<close>

theorem reverse_scan_first_match:
  assumes "compile_rules h root_path [] decls = Inr regexp"
  shows "(\<exists>rules. map (compile_rule h root_path) decls = map Inr rules \<and> regexp = rev rules) \<and>
         scan h regexp cm fspath chg st =
           (case find (\<lambda>pr. check_path pr fspath) regexp of
              None \<Rightarrow> Inr (chg, st)
            | Some pr \<Rightarrow> then_do (apply_rule h pr fspath cm chg st) (\<lambda>x st'. Inr (snd x, st'))) \<and>
         (\<forall>before pr after other.
            regexp = before @ pr # after \<and> check_path pr fspath \<and>
            (\<forall>q\<in>set before. \<not> check_path q fspath) \<longrightarrow>
            scan h (before @ pr # other) cm fspath chg st =
              then_do (apply_rule h pr fspath cm chg st) (\<lambda>x st'. Inr (snd x, st'))) \<and>
         ((\<forall>pr\<in>set regexp. \<not> check_path pr fspath) \<longrightarrow>
            scan h regexp cm fspath chg st = Inr (chg, st))"
proof -
  from compile_rules_rev [OF assms]
  have a: "\<exists>rules. map (compile_rule h root_path) decls = map Inr rules \<and> regexp = rev rules"
    by simp
  have c: "scan h (before @ pr # other) cm fspath chg st =
             then_do (apply_rule h pr fspath cm chg st) (\<lambda>x st'. Inr (snd x, st'))"
    if "check_path pr fspath" "\<forall>q\<in>set before. \<not> check_path q fspath" for before pr other
    using find_first [OF that] by (simp add: scan_find)
  have d: "scan h regexp cm fspath chg st = Inr (chg, st)"
    if "\<forall>pr\<in>set regexp. \<not> check_path pr fspath"
  proof -
    from that have "find (\<lambda>pr. check_path pr fspath) regexp = None"
      by (simp add: find_None_iff)
    then show ?thesis by (simp add: scan_find)
  qed
  from a c d show ?thesis
    using scan_find by blast
qed

theorem reverse_scan_first_match_witness:
  "compile_rules host_app ''/app'' [] decls_two = Inr [pr_f, pr_d] \<and>
   map (compile_rule host_app ''/app'') decls_two = map Inr [pr_d, pr_f] \<and>
   \<not> check_path pr_f rec_root \<and> \<not> check_path pr_d rec_root \<and>
   scan host_app [pr_f, pr_d] True rec_root False st_app = Inr (False, st_app) \<and>
   check_path pr_f rec_f \<and>
   scan host_app [pr_f, pr_d] True rec_f False st_app =
     then_do (apply_rule host_app pr_f rec_f True False st_app) (\<lambda>x st'. Inr (snd x, st')) \<and>
   map (\<lambda>i. inodes (snd (projr (scan host_app [pr_f, pr_d] True rec_f False st_app))) i) [1, 2, 3, 4] =
     [Some \<lparr>st_mode = 16877, st_uid = 0, st_gid = 0\<rparr>,
      Some \<lparr>st_mode = 33152, st_uid = 1001, st_gid = 0\<rparr>,
      Some \<lparr>st_mode = 16877, st_uid = 0, st_gid = 0\<rparr>,
      Some \<lparr>st_mode = 41471, st_uid = 1001, st_gid = 50\<rparr>]"
proof -
  have c: "compile_rules host_app ''/app'' [] decls_two = Inr [pr_f, pr_d]"
    by code_simp
  have m: "map (compile_rule host_app ''/app'') decls_two = map Inr [pr_d, pr_f]"
    by code_simp
  have n: "\<not> check_path pr_f rec_root" "\<not> check_path pr_d rec_root" "check_path pr_f rec_f"
    by code_simp+
  have e: "map (\<lambda>i. inodes (snd (projr (scan host_app [pr_f, pr_d] True rec_f False st_app))) i) [1, 2, 3, 4] =
     [Some \<lparr>st_mode = 16877, st_uid = 0, st_gid = 0\<rparr>,
      Some \<lparr>st_mode = 33152, st_uid = 1001, st_gid = 0\<rparr>,
      Some \<lparr>st_mode = 16877, st_uid = 0, st_gid = 0\<rparr>,
      Some \<lparr>st_mode = 41471, st_uid = 1001, st_gid = 50\<rparr>]"
    by code_simp
  from reverse_scan_first_match [OF c, of True rec_root False st_app] n
  have u: "scan host_app [pr_f, pr_d] True rec_root False st_app = Inr (False, st_app)"
    by simp
  from reverse_scan_first_match [OF c, of True rec_f False st_app] n
  have g: "scan host_app [pr_f, pr_d] True rec_f False st_app =
     then_do (apply_rule host_app pr_f rec_f True False st_app) (\<lambda>x st'. Inr (snd x, st'))"
    by simp
  from c m n e u g show ?thesis by simp
qed

subsection \<open>What applying a rule changes\<close>

lemma apply_rule_wanted:
  "apply_rule h pr fspath cm chg st =
     then_do (apply_mode h (wanted_mode pr fspath) cm (fspath, chg) st) (\<lambda>x st1.
     then_do (apply_uid h (wanted_uid pr fspath) cm x st1) (\<lambda>y st2.
     apply_gid h (wanted_gid pr fspath) cm y st2))"
  by (simp add: apply_rule_def wanted_mode_def wanted_uid_def wanted_gid_def
      apply_mode_def apply_uid_def apply_gid_def then_do_def)

lemma then_do_Inr_iff:
  "then_do m f = Inr r \<longleftrightarrow> (\<exists>x st. m = Inr (x, st) \<and> f x st = Inr r)"
  by (cases m) (auto simp: then_do_def)

lemma apply_record_calls:
  assumes a: "apply_rule h pr fspath cm chg st = Inr ((fspath', chg'), st')"
  shows "fspath' = (if cm then fspath\<lparr>mode := (case wanted_mode pr fspath of None \<Rightarrow> mode fspath | Some m \<Rightarrow> m),
                            uid := (case wanted_uid pr fspath of None \<Rightarrow> uid fspath | Some u \<Rightarrow> u),
                            gid := (case wanted_gid pr fspath of None \<Rightarrow> gid fspath | Some g \<Rightarrow> g)\<rparr>
                   else fspath)"
    and "calls st' = calls st @ (if cm then attribute_calls pr fspath else [])"
    and "chg' = (chg \<or> attribute_calls pr fspath \<noteq> [])"
    and "changed_list st' = changed_list st @
           (if truthy (debug st) then map call_path (attribute_calls pr fspath) else [])"
    and "debug st' = debug st"
    and "attribute_calls pr fspath = [] \<longrightarrow> st' = st"
  using a unfolding apply_rule_wanted then_do_def
  by (auto simp: apply_mode_def apply_uid_def apply_gid_def os_chmod_def os_chown_def
        add_to_changed_list_def Let_def attribute_calls_def
      split: option.splits if_splits sum.splits prod.splits)


subsection \<open>The \<^verbatim>\<open>changed\<close> flag and the list of changed paths\<close>

lemma reported_refl: "reported st chg st chg"
  by (simp add: reported_def)

lemma reported_trans:
  "reported st chg st1 chg1 \<Longrightarrow> reported st1 chg1 st2 chg2 \<Longrightarrow> reported st chg st2 chg2"
  unfolding reported_def by (elim exE conjE, rule_tac x = "new @ newa" in exI) auto

lemma scan_reported:
  "scan h regexp True fspath chg st = Inr (chg', st') \<Longrightarrow> reported st chg st' chg'"
proof (induction regexp)
  case Nil
  then show ?case by (simp add: reported_refl)
next
  case (Cons pr regexp)
  show ?case
  proof (cases "check_path pr fspath")
    case True
    with Cons.prems obtain f' where "apply_rule h pr fspath True chg st = Inr ((f', chg'), st')"
      by (auto simp: then_do_Inr_iff)
    from apply_record_calls(2-5) [OF this] show ?thesis
      unfolding reported_def by (intro exI [of _ "attribute_calls pr fspath"]) simp
  next
    case False
    with Cons show ?thesis by simp
  qed
qed

lemma visit_reported:
  "visit h regexp True p chg st = Inr (chg', st') \<Longrightarrow> reported st chg st' chg'"
  by (auto simp: visit_def split: sum.splits dest: scan_reported)

lemma visit_all_reported:
  "visit_all h regexp True ps chg st = Inr (chg', st') \<Longrightarrow> reported st chg st' chg'"
proof (induction ps arbitrary: chg st)
  case Nil
  then show ?case by (simp add: reported_refl)
next
  case (Cons p ps)
  from Cons.prems obtain c1 s1 where
    v: "visit h regexp True (normpath h (inodes st) p) chg st = Inr (c1, s1)" and
    r: "visit_all h regexp True ps c1 s1 = Inr (chg', st')"
    by (auto split: sum.splits)
  from reported_trans [OF visit_reported [OF v] Cons.IH [OF r]] show ?case .
qed

lemma reconcile_reported:
  assumes "reconcile h regexp True root_path chg st = Inr (chg', st')"
  shows "reported st chg st' chg'"
proof (cases "os_path_exists h (inodes st) (normpath h (inodes st) root_path)")
  case True
  with assms obtain c1 s1 where
    v: "visit h regexp True (normpath h (inodes st) root_path) chg st = Inr (c1, s1)" and
    r: "visit_all h regexp True (walk_paths h (normpath h (inodes st) root_path)) c1 s1 = Inr (chg', st')"
    by (auto simp: reconcile_def Let_def then_do_Inr_iff)
  from reported_trans [OF visit_reported [OF v] visit_all_reported [OF r]] show ?thesis .
next
  case False
  with assms show ?thesis by (simp add: reconcile_def Let_def reported_refl)
qed

lemma main_Inr:
  assumes "main h args tab = (Inr res, st)"
  obtains dbg root_path regexp where
    "read_debug args = Inr dbg"
    "configure h tab args = Inr (root_path, regexp)"
    "reconcile h regexp True root_path False
       \<lparr>inodes = tab, calls = [], debug = dbg, changed_list = []\<rparr> = Inr (changed res, st)"
    "result_changed_list res = (if truthy (debug st) then Some (changed_list st) else None)"
  using assms unfolding main_def Let_def
  by (auto split: sum.splits prod.splits)

text \<open>
  C8. A run that ends with a result has \<^verbatim>\<open>changed\<close> true if and only if it made at
  least one \<^verbatim>\<open>chmod\<close> or \<^verbatim>\<open>chown\<close> call, that is, applied at least one attribute to
  at least one entry. Under \<^verbatim>\<open>debug\<close> the result's \<^verbatim>\<open>changed_list\<close> is the paths of
  these calls, one for each call and in their order, so a path whose mode and owner are
  both set appears twice; without \<^verbatim>\<open>debug\<close> the result has no \<^verbatim>\<open>changed_list\<close> and
  nothing was recorded.
\<close>

theorem changed_iff_call_made:
  assumes "main h args tab = (Inr res, st)"
  shows "changed res = (calls st \<noteq> []) \<and>
         (truthy (debug st) \<longrightarrow> result_changed_list res = Some (map call_path (calls st))) \<and>
         (\<not> truthy (debug st) \<longrightarrow> result_changed_list res = None \<and> changed_list st = []) \<and>
         read_debug args = Inr (debug st)"
proof -
  from assms obtain dbg root_path regexp where
    d: "read_debug args = Inr dbg" and
    r: "reconcile h regexp True root_path False
          \<lparr>inodes = tab, calls = [], debug = dbg, changed_list = []\<rparr> = Inr (changed res, st)" and
    l: "result_changed_list res = (if truthy (debug st) then Some (changed_list st) else None)"
    by (rule main_Inr)
  from reconcile_reported [OF r] d l show ?thesis
    by (auto simp: reported_def)
qed


theorem changed_iff_call_made_witness:
  "\<not> isl (fst (main host_app args_debug tab_app)) \<and>
   calls (snd (main host_app args_debug tab_app)) =
     [Chmod ''/app/'' 488, Chmod ''/app/f'' 384, Chown ''/app/f'' 1001 0] \<and>
   changed (projr (fst (main host_app args_debug tab_app))) \<and>
   result_changed_list (projr (fst (main host_app args_debug tab_app))) =
     Some [''/app/'', ''/app/f'', ''/app/f''] \<and>
   \<not> isl (fst (main host_app args_quiet tab_app)) \<and>
   changed (projr (fst (main host_app args_quiet tab_app))) \<and>
   result_changed_list (projr (fst (main host_app args_quiet tab_app))) = None"
proof -
  have i: "\<not> isl (fst (main host_app args_debug tab_app))"
    and j: "\<not> isl (fst (main host_app args_quiet tab_app))"
    by code_simp+
  have c: "calls (snd (main host_app args_debug tab_app)) =
     [Chmod ''/app/'' 488, Chmod ''/app/f'' 384, Chown ''/app/f'' 1001 0]"
    and d: "truthy (debug (snd (main host_app args_debug tab_app)))"
    and e: "calls (snd (main host_app args_quiet tab_app)) \<noteq> []"
    and f: "\<not> truthy (debug (snd (main host_app args_quiet tab_app)))"
    by code_simp+
  from i have "main host_app args_debug tab_app =
      (Inr (projr (fst (main host_app args_debug tab_app))), snd (main host_app args_debug tab_app))"
    by (cases "main host_app args_debug tab_app") (auto simp: isl_def)
  from changed_iff_call_made [OF this] c d
  have x: "changed (projr (fst (main host_app args_debug tab_app)))"
    "result_changed_list (projr (fst (main host_app args_debug tab_app))) =
       Some [''/app/'', ''/app/f'', ''/app/f'']"
    by simp_all
  from j have "main host_app args_quiet tab_app =
      (Inr (projr (fst (main host_app args_quiet tab_app))), snd (main host_app args_quiet tab_app))"
    by (cases "main host_app args_quiet tab_app") (auto simp: isl_def)
  from changed_iff_call_made [OF this] e f
  have y: "changed (projr (fst (main host_app args_quiet tab_app)))"
    "result_changed_list (projr (fst (main host_app args_quiet tab_app))) = None"
    by simp_all
  from i j c x y show ?thesis
    by simp
qed

subsection \<open>Unknown owners and groups\<close>

lemma init_names_unknown_fails:
  assumes "names_unknown h kwargs name"
  shows "\<exists>e. PermissionRegex_init h root_path kwargs = Inl e"
proof (cases "PermissionRegex_init h root_path kwargs")
  case (Inr pr)
  from init_fields(5-8) [OF Inr] assms show ?thesis
    by (auto simp: names_unknown_def try_kwarg_def lookup_id_def)
qed auto

lemma lookup_id_cases:
  assumes "name_or_none v"
  shows "(\<exists>x. lookup_id db v = Inr x) \<or> (\<exists>n. v = JStr n \<and> db n = None \<and> lookup_id db v = Inl (Could_not_find n))"
  using assms by (cases v) (auto simp: name_or_none_def lookup_id_def split: option.splits)

lemma try_kwarg_JStr: "try_kwarg kwargs k JNull = JStr n \<Longrightarrow> dict_get kwargs k = Some (JStr n)"
  by (auto simp: try_kwarg_def split: option.splits)

lemma init_could_not_find:
  assumes w: "otherwise_well_formed kwargs" and u: "names_unknown h kwargs name"
  shows "\<exists>n. PermissionRegex_init h root_path kwargs = Inl (Could_not_find n) \<and> names_unknown h kwargs n"
proof -
  from w obtain ps fm dm dof dod where
    p: "try_kwarg_required kwargs ''paths'' = Inr ps"
    "to_mode (try_kwarg kwargs ''file_mode'' JNull) = Inr fm"
    "to_mode (try_kwarg kwargs ''dir_mode'' JNull) = Inr dm"
    "to_bool (try_kwarg kwargs ''do_files'' (JBool True)) = Inr dof"
    "to_bool (try_kwarg kwargs ''do_dirs'' (JBool True)) = Inr dod"
    by (auto simp: otherwise_well_formed_def try_kwarg_required_def isl_def split: option.splits)
      (metis sum.exhaust sum.disc(1) isl_def)
  let ?fo = "lookup_id (getpwnam h) (try_kwarg kwargs ''file_owner'' JNull)"
  let ?fg = "lookup_id (getgrnam h) (try_kwarg kwargs ''file_group'' JNull)"
  let ?do = "lookup_id (getpwnam h) (try_kwarg kwargs ''dir_owner'' JNull)"
  let ?dg = "lookup_id (getgrnam h) (try_kwarg kwargs ''dir_group'' JNull)"
  have init: "PermissionRegex_init h root_path kwargs =
     bind ?fo (\<lambda>fu. bind ?fg (\<lambda>fg. bind ?do (\<lambda>du. bind ?dg (\<lambda>dg.
     bind (iter_paths ps) (\<lambda>elems.
     bind (compile_paths root_path elems) (\<lambda>rs.
       Inr \<lparr>paths = ps, file_mode = fm, dir_mode = dm,
            file_owner = try_kwarg kwargs ''file_owner'' JNull,
            file_group = try_kwarg kwargs ''file_group'' JNull,
            dir_owner = try_kwarg kwargs ''dir_owner'' JNull,
            dir_group = try_kwarg kwargs ''dir_group'' JNull,
            do_files = dof, do_dirs = dod,
            file_uid = fu, file_gid = fg, dir_uid = du, dir_gid = dg,
            regex_paths = rs\<rparr>))))))"
    by (simp add: PermissionRegex_init_def p bind_def)
  from w have n: "name_or_none (try_kwarg kwargs ''file_owner'' JNull)"
    "name_or_none (try_kwarg kwargs ''file_group'' JNull)"
    "name_or_none (try_kwarg kwargs ''dir_owner'' JNull)"
    "name_or_none (try_kwarg kwargs ''dir_group'' JNull)"
    by (simp_all add: otherwise_well_formed_def)
  have fo: "(\<exists>x. ?fo = Inr x) \<or> (\<exists>n. ?fo = Inl (Could_not_find n) \<and> names_unknown h kwargs n)"
    using lookup_id_cases [OF n(1), of "getpwnam h"]
    by (auto simp: names_unknown_def dest: try_kwarg_JStr)
  have fg: "(\<exists>x. ?fg = Inr x) \<or> (\<exists>n. ?fg = Inl (Could_not_find n) \<and> names_unknown h kwargs n)"
    using lookup_id_cases [OF n(2), of "getgrnam h"]
    by (auto simp: names_unknown_def dest: try_kwarg_JStr)
  have "do": "(\<exists>x. ?do = Inr x) \<or> (\<exists>n. ?do = Inl (Could_not_find n) \<and> names_unknown h kwargs n)"
    using lookup_id_cases [OF n(3), of "getpwnam h"]
    by (auto simp: names_unknown_def dest: try_kwarg_JStr)
  have dg: "(\<exists>x. ?dg = Inr x) \<or> (\<exists>n. ?dg = Inl (Could_not_find n) \<and> names_unknown h kwargs n)"
    using lookup_id_cases [OF n(4), of "getgrnam h"]
    by (auto simp: names_unknown_def dest: try_kwarg_JStr)
  have some: "\<not> ((\<exists>x. ?fo = Inr x) \<and> (\<exists>x. ?fg = Inr x) \<and> (\<exists>x. ?do = Inr x) \<and> (\<exists>x. ?dg = Inr x))"
    using u by (auto simp: names_unknown_def try_kwarg_def lookup_id_def)
  from fo fg "do" dg some show ?thesis
    unfolding init by (auto simp: bind_def)
qed

lemma compile_rules_append:
  "compile_rules h root_path acc (xs @ ys) =
     bind (compile_rules h root_path acc xs) (\<lambda>rs. compile_rules h root_path rs ys)"
  by (induction xs arbitrary: acc) (auto simp: bind_def split: sum.splits)

lemma main_configure_Inl:
  assumes "read_debug args = Inr dbg" and "configure h tab args = Inl e"
  shows "fst (main h args tab) = Inl e"
  using assms by (simp add: main_def)

text \<open>
  C4. When a declared rule names an owner or a group that the host does not know, the
  run fails, and it fails while the rules are compiled: no \<^verbatim>\<open>chmod\<close> or \<^verbatim>\<open>chown\<close>
  was called and the inode table is the one the run started with. Compiling that
  declaration fails; when the declaration is otherwise well formed, the failure is the
  one of the identity lookup and carries an unknown name that the declaration holds, and
  when moreover the arguments before it are accepted (\<^verbatim>\<open>debug\<close>, \<^verbatim>\<open>root_path\<close>, the
  declarations before this one), it is the failure the whole run ends with.
\<close>

theorem unknown_identity_fails_before_walk:
  assumes r: "dict_get args ''regexp'' = Some (JList decls)"
    and k: "JObj kwargs \<in> set decls"
    and u: "names_unknown h kwargs name"
  shows "(\<exists>e st. main h args tab = (Inl e, st) \<and> inodes st = tab \<and> calls st = []) \<and>
         (\<forall>root_path. \<exists>e. PermissionRegex_init h root_path kwargs = Inl e \<and>
            (otherwise_well_formed kwargs \<longrightarrow>
               (\<exists>n. e = Could_not_find n \<and> names_unknown h kwargs n))) \<and>
         (\<forall>dbg root_path before after rs.
            read_debug args = Inr dbg \<and>
            dict_get args ''root_path'' = Some (JStr root_path) \<and>
            os_path_isdir h tab root_path \<and>
            decls = before @ JObj kwargs # after \<and>
            compile_rules h root_path [] before = Inr rs \<and>
            otherwise_well_formed kwargs \<longrightarrow>
              (\<exists>n. fst (main h args tab) = Inl (Could_not_find n) \<and> names_unknown h kwargs n))"
proof -
  have "\<exists>e. compile_rules h root_path [] decls = Inl e" for root_path
    using init_names_unknown_fails [OF u] compile_rules_fails [OF k] by blast
  from main_configure_fails [OF r this]
  have a: "\<exists>e st. main h args tab = (Inl e, st) \<and> inodes st = tab \<and> calls st = []"
    by blast
  have b: "\<exists>e. PermissionRegex_init h root_path kwargs = Inl e \<and>
            (otherwise_well_formed kwargs \<longrightarrow>
               (\<exists>n. e = Could_not_find n \<and> names_unknown h kwargs n))" for root_path
    using init_names_unknown_fails [OF u, of root_path] init_could_not_find [OF _ u, of root_path]
    by auto
  have c: "\<exists>n. fst (main h args tab) = Inl (Could_not_find n) \<and> names_unknown h kwargs n"
    if d: "read_debug args = Inr dbg" and rp: "dict_get args ''root_path'' = Some (JStr root_path)"
      and isd: "os_path_isdir h tab root_path" and dec: "decls = before @ JObj kwargs # after"
      and pre: "compile_rules h root_path [] before = Inr rs" and w: "otherwise_well_formed kwargs"
    for dbg root_path before after rs
  proof -
    from init_could_not_find [OF w u] obtain n where
      n: "PermissionRegex_init h root_path kwargs = Inl (Could_not_find n)" "names_unknown h kwargs n"
      by blast
    have "compile_rules h root_path [] decls = Inl (Could_not_find n)"
      unfolding dec compile_rules_append by (simp add: pre bind_def compile_rule_def n)
    then have "configure h tab args = Inl (Could_not_find n)"
      using r rp isd by (simp add: configure_def bind_def)
    from main_configure_Inl [OF d this] n(2) show ?thesis
      by blast
  qed
  from a b c show ?thesis
    by blast
qed

theorem unknown_identity_fails_before_walk_witness:
  "dict_get args_unknown_owner ''regexp'' =
     Some (JList [JObj [(''paths'', JList [JStr ''/.*'']), (''file_mode'', JStr ''600'')],
                  JObj kw_unknown]) \<and>
   names_unknown host_app kw_unknown ''mallory'' \<and>
   otherwise_well_formed kw_unknown \<and>
   fst (main host_app args_unknown_owner tab_app) = Inl (Could_not_find ''mallory'') \<and>
   inodes (snd (main host_app args_unknown_owner tab_app)) = tab_app \<and>
   calls (snd (main host_app args_unknown_owner tab_app)) = []"
proof -
  have r: "dict_get args_unknown_owner ''regexp'' =
     Some (JList [JObj [(''paths'', JList [JStr ''/.*'']), (''file_mode'', JStr ''600'')],
                  JObj kw_unknown])"
    by (simp add: dict_get_def args_unknown_owner_def)
  have u: "names_unknown host_app kw_unknown ''mallory''"
    by code_simp
  have w: "otherwise_well_formed kw_unknown"
    by code_simp
  have e: "fst (main host_app args_unknown_owner tab_app) = Inl (Could_not_find ''mallory'')"
    by code_simp
  from unknown_identity_fails_before_walk [OF r _ u, of tab_app]
  have "inodes (snd (main host_app args_unknown_owner tab_app)) = tab_app \<and>
        calls (snd (main host_app args_unknown_owner tab_app)) = []"
    by auto
  with r u w e show ?thesis
    by simp
qed

subsection \<open>What a record holds\<close>

lemma mask_range: "0 \<le> (m::int) AND 4095 \<and> m AND 4095 \<le> 4095"
  by (simp add: AND_upper2')

lemma collect_path_data_fields:
  assumes "collect_path_data h tab p = Inr fspath"
  shows "\<exists>nd. os_lstat h tab p = Some nd \<and>
              mode fspath = st_mode nd AND 4095 \<and> 0 \<le> mode fspath \<and> mode fspath \<le> 4095 \<and>
              uid fspath = st_uid nd \<and> gid fspath = st_gid nd"
    and "path fspath = p"
    and "isdir fspath = os_path_isdir h tab p"
    and "isfile fspath = (\<not> isdir fspath)"
  using assms
  by (auto simp: collect_path_data_def Let_def mask_range split: option.splits)

text \<open>
  C7. The mode, owner and group of a record come from \<^verbatim>\<open>os.lstat\<close>, the mode masked to
  its low twelve bits; the type does not: it is \<^verbatim>\<open>os.path.isdir\<close>, which follows a
  symbolic link. On the host above the walk reaches the link \<^verbatim>\<open>/app/l\<close>, which
  \<^verbatim>\<open>lstat\<close> reports as a link owned by user 1001. \<^verbatim>\<open>normpath\<close> gives it a slash at
  the end, and the record collected for it is that of the directory the link points to:
  a directory, with the target's mode and owner.
\<close>

theorem symlink_recorded_as_its_target:
  "path_join ''/app/'' ''l'' = ''/app/l'' \<and>
   os_lstat host_app tab_app ''/app/l'' = Some \<lparr>st_mode = 41471, st_uid = 1001, st_gid = 50\<rparr> \<and>
   S_ISLNK 41471 \<and> \<not> S_ISDIR 41471 \<and>
   normpath host_app tab_app ''/app/l'' = ''/app/l/'' \<and>
   collect_path_data host_app tab_app ''/app/l/'' =
     Inr \<lparr>path = ''/app/l/'', mode = 493, uid = 0, gid = 0, isdir = True, isfile = False\<rparr> \<and>
   collect_path_data host_app tab_app ''/app/l'' =
     Inr \<lparr>path = ''/app/l'', mode = 511, uid = 1001, gid = 50, isdir = True, isfile = False\<rparr>"
  by code_simp


subsection \<open>Anchored patterns\<close>

















subsection \<open>Attributes that a rule does not specify\<close>

text \<open>
  C2. The module's documentation says that only the attributes that are specified will
  be changed. The file \<^verbatim>\<open>/app/f\<close> has mode \<^verbatim>\<open>0o4755\<close> and the one rule gives it an
  owner and nothing else: the run makes the one call \<^verbatim>\<open>chown('/app/f', 1001, 0)\<close>, which
  clears the set-user-ID bit, and nothing restores the mode: it is \<^verbatim>\<open>0o755\<close> after the
  run. On the second host the rule gives every file the owner 33 and nothing else; the
  record of the link \<^verbatim>\<open>/app/lf\<close> holds the link's own owner and group 0, and
  \<^verbatim>\<open>chown('/app/lf', 33, 0)\<close> follows the link: the group of \<^verbatim>\<open>/app/f\<close>, which the
  rule does not specify, goes from 33 to 0.
\<close>

theorem unspecified_attribute_changed:
  "\<not> isl (fst (main host_app args_owner_only tab_suid)) \<and>
   calls (snd (main host_app args_owner_only tab_suid)) = [Chown ''/app/f'' 1001 0] \<and>
   os_lstat host_app tab_suid ''/app/f'' = Some \<lparr>st_mode = 35309, st_uid = 0, st_gid = 0\<rparr> \<and>
   os_lstat host_app (inodes (snd (main host_app args_owner_only tab_suid))) ''/app/f'' =
     Some \<lparr>st_mode = 33261, st_uid = 1001, st_gid = 0\<rparr> \<and>
   \<not> isl (fst (main host_link args_www tab_link)) \<and>
   calls (snd (main host_link args_www tab_link)) = [Chown ''/app/lf'' 33 0] \<and>
   os_lstat host_link tab_link ''/app/f'' = Some \<lparr>st_mode = 33188, st_uid = 33, st_gid = 33\<rparr> \<and>
   os_lstat host_link (inodes (snd (main host_link args_www tab_link))) ''/app/f'' =
     Some \<lparr>st_mode = 33188, st_uid = 33, st_gid = 0\<rparr>"
  by code_simp

subsection \<open>A second run\<close>


subsection \<open>The pattern for the root directory\<close>


end
